theory Spec2Isabelle
  imports Complex_Main "HOL-Library.Char_ord" "HOL-Library.List_Lexorder"
    "HOL-Library.Product_Lexorder"
begin

section \<open>Data model\<close>

text \<open>
  The pipeline of \<^verbatim>\<open>scripts/etl_pipeline.py\<close> works on pandas DataFrames. A cell is a
  missing value (NaN, None and NaT alike: \<^verbatim>\<open>dropna\<close> does not tell them apart), a
  text, a number or a timestamp. A finite number is a rational, the exact value the
  float stands for; the two infinities of the floats are numbers too (\<open>Inf True\<close> is
  the positive one). A timestamp is the count of nanoseconds since the epoch that
  \<^verbatim>\<open>datetime64[ns]\<close> stores: \<open>Ts\<close> for a timezone-naive value, \<open>TsUtc\<close> for a
  timezone-aware one in UTC (other zones are not modelled). The count is a 64-bit
  signed integer, its least value standing for NaT.
\<close>

datatype cell = Null | Str string | Num rat | Inf bool | Ts int | TsUtc int

definition int64_min :: int where
  "int64_min = - (2 ^ 63)"

definition int64_max :: int where
  "int64_max = 2 ^ 63 - 1"

definition representable :: "int \<Rightarrow> bool" where
  "representable t = (int64_min < t \<and> t \<le> int64_max)"

text \<open>What a conversion by pandas yields for one value: a number, a timestamp.\<close>

datatype number = Finite rat | Infinite bool

datatype stamp = Naive int | Utc int

text \<open>
  A DataFrame is its list of column names and its rows in order; a row maps a column
  name to the cell it holds. What a row gives outside \<open>columns\<close> is not part of the
  table. DataFrames are mutable objects that the functions of the pipeline share by
  reference, so they live in a store: a reference is a position in the list of all
  DataFrames allocated so far, and a new DataFrame is appended.
\<close>

type_synonym row = "string \<Rightarrow> cell"

record frame =
  columns :: "string list"
  rows :: "row list"

type_synonym heap = "frame list"
type_synonym ref = nat

datatype error =
    KeyError string
  | MissingColumns "string set"
  | LengthMismatch
  | AttributeError
  | TypeError
  | OverflowError
  | MergeKeyError string
  | IntValueError string
  | LibraryError string
  | SourceUnavailable string
  | DanglingRef

section \<open>Hour buckets\<close>

definition minute_ns :: int where
  "minute_ns = 60000000000"

definition hour_ns :: int where
  "hour_ns = 3600000000000"

definition hour_start :: "int \<Rightarrow> int" where
  "hour_start t = t - t mod hour_ns"

definition minute_of :: "int \<Rightarrow> int" where
  "minute_of t = (t div minute_ns) mod 60"

text \<open>
  \<^verbatim>\<open>Series.dt.floor("H")\<close> on one value: pandas subtracts from the nanosecond count its
  remainder modulo the frequency, the remainder taking the sign of the divisor, in
  64-bit arithmetic with an overflow check: a timestamp in the first, partial hour of
  the range has its hour start below the least 64-bit integer, and flooring it raises
  \<^verbatim>\<open>OverflowError\<close>.
\<close>

definition floor_hour :: "int \<Rightarrow> error + int" where
  "floor_hour t = (if hour_start t < int64_min then Inl OverflowError else Inr (hour_start t))"

text \<open>
  The \<^verbatim>\<open>.dt\<close> accessor exists on datetime columns only (\<^verbatim>\<open>AttributeError\<close> otherwise):
  columns whose values are all timezone-naive or all timezone-aware. NaT stays NaT.
\<close>

fun naive_or_null :: "cell \<Rightarrow> bool" where
  "naive_or_null Null = True"
| "naive_or_null (Ts t) = True"
| "naive_or_null c = False"

fun aware_or_null :: "cell \<Rightarrow> bool" where
  "aware_or_null Null = True"
| "aware_or_null (TsUtc t) = True"
| "aware_or_null c = False"

definition datetime_column :: "cell list \<Rightarrow> bool" where
  "datetime_column xs = (list_all naive_or_null xs \<or> list_all aware_or_null xs)"

fun floor_overflows :: "cell \<Rightarrow> bool" where
  "floor_overflows (Ts t) = (hour_start t < int64_min)"
| "floor_overflows (TsUtc t) = (hour_start t < int64_min)"
| "floor_overflows c = False"

fun hour_cell :: "cell \<Rightarrow> cell" where
  "hour_cell (Ts t) = Ts (hour_start t)"
| "hour_cell (TsUtc t) = TsUtc (hour_start t)"
| "hour_cell c = Null"

definition dt_floor :: "cell list \<Rightarrow> error + cell list" where
  "dt_floor xs =
     (if \<not> datetime_column xs then Inl AttributeError
      else if list_ex floor_overflows xs then Inl OverflowError
      else Inr (map hour_cell xs))"

section \<open>DataFrame operations\<close>

text \<open>
  The pandas operations the pipeline calls, first on a DataFrame as a value.
  \<^verbatim>\<open>df.dropna(subset=[c])\<close> keeps the rows whose cell in column \<open>c\<close> is not missing.
\<close>

definition frame_dropna :: "frame \<Rightarrow> string \<Rightarrow> frame" where
  "frame_dropna f c = f\<lparr>rows := filter (\<lambda>r. r c \<noteq> Null) (rows f)\<rparr>"

text \<open>
  \<^verbatim>\<open>df[c] = values\<close> overwrites the column where it stands, or appends a new column
  after the others.
\<close>

definition frame_setitem :: "frame \<Rightarrow> string \<Rightarrow> cell list \<Rightarrow> frame" where
  "frame_setitem f c vals =
     \<lparr>columns = (if c \<in> set (columns f) then columns f else columns f @ [c]),
      rows = map2 (\<lambda>r v. r(c := v)) (rows f) vals\<rparr>"

text \<open>
  \<^verbatim>\<open>df.rename(columns={old: new})\<close>: a new DataFrame in which the column \<open>old\<close>, if
  there is one, is called \<open>new\<close>. A row holds one cell per name, so a DataFrame in
  which two columns end up with the same name is outside this model; the theorems that
  read the unified table by name ask for its column names to be distinct.
\<close>

definition frame_rename :: "frame \<Rightarrow> string \<Rightarrow> string \<Rightarrow> frame" where
  "frame_rename f old new =
     (if old \<in> set (columns f)
      then \<lparr>columns = map (\<lambda>c. if c = old then new else c) (columns f),
            rows = map (\<lambda>r. r(new := r old)) (rows f)\<rparr>
      else f)"

text \<open>
  \<^verbatim>\<open>pd.to_datetime(col, errors="coerce")\<close>: what does not parse, or parses to a time
  that 64 bits of nanoseconds cannot hold, becomes NaT. The parser is pandas' own and a
  parameter here: it stands for pandas at the time of the call (the texts
  \<^verbatim>\<open>now\<close> and \<^verbatim>\<open>today\<close> parse to the reading of the clock), and it sees the whole
  column beside the cell, since pandas may settle the format of a column from its first
  value.
\<close>

fun stamp_cell :: "stamp \<Rightarrow> cell" where
  "stamp_cell (Naive t) = (if representable t then Ts t else Null)"
| "stamp_cell (Utc t) = (if representable t then TsUtc t else Null)"

fun datetime_cell :: "(cell \<Rightarrow> stamp option) \<Rightarrow> cell \<Rightarrow> cell" where
  "datetime_cell p Null = Null"
| "datetime_cell p c = (case p c of None \<Rightarrow> Null | Some s \<Rightarrow> stamp_cell s)"

definition to_datetime :: "(cell list \<Rightarrow> cell \<Rightarrow> stamp option) \<Rightarrow> cell list \<Rightarrow> cell list" where
  "to_datetime pd_parse xs = map (datetime_cell (pd_parse xs)) xs"

text \<open>
  \<^verbatim>\<open>pd.to_numeric(col, errors="coerce")\<close>: what is not a number becomes NaN. The
  conversion of one cell is pandas' own and a parameter here; it may yield an infinity
  (pandas reads the text \<^verbatim>\<open>inf\<close> as one).
\<close>

fun number_cell :: "number \<Rightarrow> cell" where
  "number_cell (Finite q) = Num q"
| "number_cell (Infinite b) = Inf b"

fun numeric_cell :: "(cell \<Rightarrow> number option) \<Rightarrow> cell \<Rightarrow> cell" where
  "numeric_cell n Null = Null"
| "numeric_cell n c = (case n c of None \<Rightarrow> Null | Some x \<Rightarrow> number_cell x)"

definition to_numeric :: "(cell \<Rightarrow> number option) \<Rightarrow> cell list \<Rightarrow> cell list" where
  "to_numeric pd_num xs = map (numeric_cell pd_num) xs"

text \<open>
  \<^verbatim>\<open>pd.merge(left, right, on=keys, how="inner", suffixes=(sl, sr))\<close>. A column that both
  sides have and that is not a key gets the side's suffix; the columns of the left come
  first, in their order, then the columns of the right that are not keys. Every left
  row is paired with every right row that holds the same cells under all keys (a
  missing key matches a missing key, as in pandas), in the order of the left rows.
\<close>

definition overlapping :: "frame \<Rightarrow> frame \<Rightarrow> string list \<Rightarrow> string \<Rightarrow> bool" where
  "overlapping l r keys c = (c \<in> set (columns l) \<and> c \<in> set (columns r) \<and> c \<notin> set keys)"

definition suffixed :: "frame \<Rightarrow> frame \<Rightarrow> string list \<Rightarrow> string \<Rightarrow> string \<Rightarrow> string" where
  "suffixed l r keys sfx c = (if overlapping l r keys c then c @ sfx else c)"

definition merge_columns :: "frame \<Rightarrow> frame \<Rightarrow> string list \<Rightarrow> string \<times> string \<Rightarrow> string list" where
  "merge_columns l r keys sfx =
     map (suffixed l r keys (fst sfx)) (columns l) @
     map (suffixed l r keys (snd sfx)) (filter (\<lambda>c. c \<notin> set keys) (columns r))"

definition merge_row :: "frame \<Rightarrow> frame \<Rightarrow> string list \<Rightarrow> string \<times> string \<Rightarrow> row \<Rightarrow> row \<Rightarrow> row" where
  "merge_row l r keys sfx x y =
     (\<lambda>c. case map_of
          (map (\<lambda>n. (suffixed l r keys (fst sfx) n, x n)) (columns l) @
           map (\<lambda>n. (suffixed l r keys (snd sfx) n, y n))
             (filter (\<lambda>c. c \<notin> set keys) (columns r))) c of
        None \<Rightarrow> Null
      | Some v \<Rightarrow> v)"

definition frame_merge :: "frame \<Rightarrow> frame \<Rightarrow> string list \<Rightarrow> string \<times> string \<Rightarrow> frame" where
  "frame_merge l r keys sfx =
     \<lparr>columns = merge_columns l r keys sfx,
      rows = concat (map (\<lambda>x. map (merge_row l r keys sfx x)
                (filter (\<lambda>y. \<forall>k\<in>set keys. x k = y k) (rows r))) (rows l))\<rparr>"

subsection \<open>The same operations on DataFrame objects\<close>

text \<open>
  \<^verbatim>\<open>df[c]\<close> reads a column (\<^verbatim>\<open>KeyError\<close> when there is none). \<^verbatim>\<open>dropna\<close>,
  \<^verbatim>\<open>merge\<close> and \<^verbatim>\<open>rename\<close> return a new object and leave theirs alone;
  \<^verbatim>\<open>df[c] = values\<close> changes the object \<open>df\<close> refers to, for everyone who holds it.
\<close>

definition getitem :: "heap \<Rightarrow> ref \<Rightarrow> string \<Rightarrow> error + cell list" where
  "getitem h df c =
     (if \<not> df < length h then Inl DanglingRef
      else if c \<notin> set (columns (h ! df)) then Inl (KeyError c)
      else Inr (map (\<lambda>r. r c) (rows (h ! df))))"

definition dropna :: "heap \<Rightarrow> ref \<Rightarrow> string \<Rightarrow> error + heap \<times> ref" where
  "dropna h df c =
     (if \<not> df < length h then Inl DanglingRef
      else if c \<notin> set (columns (h ! df)) then Inl (KeyError c)
      else Inr (h @ [frame_dropna (h ! df) c], length h))"

definition setitem :: "heap \<Rightarrow> ref \<Rightarrow> string \<Rightarrow> cell list \<Rightarrow> error + heap" where
  "setitem h df c vals =
     (if \<not> df < length h then Inl DanglingRef
      else if length vals \<noteq> length (rows (h ! df)) then Inl LengthMismatch
      else Inr (h[df := frame_setitem (h ! df) c vals]))"

definition rename :: "heap \<Rightarrow> ref \<Rightarrow> string \<Rightarrow> string \<Rightarrow> error + heap \<times> ref" where
  "rename h df old new =
     (if \<not> df < length h then Inl DanglingRef
      else Inr (h @ [frame_rename (h ! df) old new], length h))"

text \<open>
  \<^verbatim>\<open>pd.merge\<close> refuses key columns of different kinds (\<^verbatim>\<open>ValueError\<close>, "You are
  trying to merge on ... and ... columns"): numbers against texts, a datetime column
  against one that is not, timezone-naive against timezone-aware. The kind of a column
  is read off its cells: it has one when it holds a value and all its values are of
  that kind. A column without values, or with values of several kinds, has none here
  and is compared cell by cell.
\<close>

datatype kind = Number | Text | NaiveTime | AwareTime

fun cell_kind :: "cell \<Rightarrow> kind option" where
  "cell_kind Null = None"
| "cell_kind (Str s) = Some Text"
| "cell_kind (Num q) = Some Number"
| "cell_kind (Inf b) = Some Number"
| "cell_kind (Ts t) = Some NaiveTime"
| "cell_kind (TsUtc t) = Some AwareTime"

definition column_kind :: "cell list \<Rightarrow> kind option" where
  "column_kind xs = (case remdups (List.map_filter cell_kind xs) of [k] \<Rightarrow> Some k | _ \<Rightarrow> None)"

definition key_clash :: "frame \<Rightarrow> frame \<Rightarrow> string \<Rightarrow> bool" where
  "key_clash l r k =
     (case (column_kind (map (\<lambda>x. x k) (rows l)), column_kind (map (\<lambda>y. y k) (rows r))) of
        (Some a, Some b) \<Rightarrow> a \<noteq> b
      | _ \<Rightarrow> False)"

definition merge :: "heap \<Rightarrow> ref \<Rightarrow> ref \<Rightarrow> string list \<Rightarrow> string \<times> string \<Rightarrow> error + heap \<times> ref" where
  "merge h l r keys sfx =
     (if \<not> (l < length h \<and> r < length h) then Inl DanglingRef
      else case filter (\<lambda>k. k \<notin> set (columns (h ! l)) \<or> k \<notin> set (columns (h ! r))) keys of
        k # ks \<Rightarrow> Inl (KeyError k)
      | [] \<Rightarrow>
          (case filter (key_clash (h ! l) (h ! r)) keys of
             k # ks \<Rightarrow> Inl (MergeKeyError k)
           | [] \<Rightarrow> Inr (h @ [frame_merge (h ! l) (h ! r) keys sfx], length h)))"

section \<open>The cleaner\<close>

text \<open>
  \<^verbatim>\<open>if c in df.columns: df[c] = pd.to_numeric(df[c], errors="coerce")\<close>, the statement
  \<^verbatim>\<open>validate_and_clean\<close> repeats for its three numeric columns.
\<close>

definition coerce_if_present :: "(cell \<Rightarrow> number option) \<Rightarrow> heap \<Rightarrow> ref \<Rightarrow> string \<Rightarrow> error + heap" where
  "coerce_if_present pd_num h df c =
     (if \<not> df < length h then Inl DanglingRef
      else if c \<in> set (columns (h ! df))
      then (case getitem h df c of
              Inl e \<Rightarrow> Inl e
            | Inr xs \<Rightarrow> setitem h df c (to_numeric pd_num xs))
      else Inr h)"

text \<open>\<^verbatim>\<open>for col in numeric_cols: df = df.dropna(subset=[col])\<close>\<close>

fun dropna_each :: "heap \<Rightarrow> ref \<Rightarrow> string list \<Rightarrow> error + heap \<times> ref" where
  "dropna_each h df [] = Inr (h, df)"
| "dropna_each h df (c # cs) =
     (case dropna h df c of
        Inl e \<Rightarrow> Inl e
      | Inr (h', df') \<Rightarrow> dropna_each h' df' cs)"

definition numeric_fields :: "string list" where
  "numeric_fields = [''ridership'', ''avg_speed'', ''congestion_index'']"

definition validate_and_clean ::
  "(cell list \<Rightarrow> cell \<Rightarrow> stamp option) \<Rightarrow> (cell \<Rightarrow> number option) \<Rightarrow> heap \<Rightarrow> ref \<Rightarrow> string
    \<Rightarrow> error + heap \<times> ref" where
  "validate_and_clean pd_parse pd_num h df time_col =
     (case dropna h df time_col of
        Inl e \<Rightarrow> Inl e
      | Inr (h1, df1) \<Rightarrow>
     (case getitem h1 df1 time_col of
        Inl e \<Rightarrow> Inl e
      | Inr ts \<Rightarrow>
     (case setitem h1 df1 time_col (to_datetime pd_parse ts) of
        Inl e \<Rightarrow> Inl e
      | Inr h2 \<Rightarrow>
     (case dropna h2 df1 time_col of
        Inl e \<Rightarrow> Inl e
      | Inr (h3, df2) \<Rightarrow>
     (case coerce_if_present pd_num h3 df2 ''ridership'' of
        Inl e \<Rightarrow> Inl e
      | Inr h4 \<Rightarrow>
     (case coerce_if_present pd_num h4 df2 ''avg_speed'' of
        Inl e \<Rightarrow> Inl e
      | Inr h5 \<Rightarrow>
     (case coerce_if_present pd_num h5 df2 ''congestion_index'' of
        Inl e \<Rightarrow> Inl e
      | Inr h6 \<Rightarrow>
          dropna_each h6 df2
            (filter (\<lambda>c. c \<in> set (columns (h6 ! df2))) numeric_fields))))))))"

section \<open>The joiner\<close>

text \<open>
  The joiner changes the objects it is given before it can fail, so its result comes
  with the store as the call leaves it, also when it raises.
\<close>

definition build_unified_table :: "heap \<Rightarrow> ref \<Rightarrow> ref \<Rightarrow> (error + ref) \<times> heap" where
  "build_unified_table h pub_df traf_df =
     (case getitem h pub_df ''timestamp'' of
        Inl e \<Rightarrow> (Inl e, h)
      | Inr tp \<Rightarrow>
     (case dt_floor tp of
        Inl e \<Rightarrow> (Inl e, h)
      | Inr hp \<Rightarrow>
     (case setitem h pub_df ''timestamp_hour'' hp of
        Inl e \<Rightarrow> (Inl e, h)
      | Inr h1 \<Rightarrow>
     (case getitem h1 traf_df ''timestamp'' of
        Inl e \<Rightarrow> (Inl e, h1)
      | Inr tt \<Rightarrow>
     (case dt_floor tt of
        Inl e \<Rightarrow> (Inl e, h1)
      | Inr ht \<Rightarrow>
     (case setitem h1 traf_df ''timestamp_hour'' ht of
        Inl e \<Rightarrow> (Inl e, h1)
      | Inr h2 \<Rightarrow>
     (case merge h2 pub_df traf_df [''route_id'', ''timestamp_hour'']
             (''_public'', ''_traffic'') of
        Inl e \<Rightarrow> (Inl e, h2)
      | Inr (h3, merged) \<Rightarrow>
     (case rename h3 merged ''timestamp_hour'' ''event_hour'' of
        Inl e \<Rightarrow> (Inl e, h3)
      | Inr (h4, unified) \<Rightarrow> (Inr unified, h4)))))))))"

section \<open>The source readers\<close>

text \<open>
  Reading is the outside world's: what a URL or a path yields is a DataFrame (what
  \<^verbatim>\<open>pd.read_csv\<close> or \<^verbatim>\<open>pd.DataFrame(data)\<close> built) or an error of the fetch. The
  environment maps a variable to its value.
\<close>

type_synonym environ = "string \<Rightarrow> string option"

record sources =
  csv_at_url :: "string \<Rightarrow> error + frame"
  csv_at_path :: "string \<Rightarrow> error + frame"
  json_at_url :: "string \<Rightarrow> error + frame"
  json_at_path :: "string \<Rightarrow> error + frame"

definition required_public :: "string set" where
  "required_public = set [''route_id'', ''city'', ''bus_stop'', ''ridership'', ''timing'']"

definition required_traffic :: "string set" where
  "required_traffic = set [''route_id'', ''avg_speed'', ''congestion_index'', ''timestamp'']"

text \<open>The endpoint, when one is configured (set and not empty), else the local file.\<close>

definition read_public :: "environ \<Rightarrow> sources \<Rightarrow> string \<Rightarrow> error + frame" where
  "read_public env src path =
     (case env ''TRANSPORT_CSV_URL'' of
        None \<Rightarrow> csv_at_path src path
      | Some csv_url \<Rightarrow> if csv_url \<noteq> [] then csv_at_url src csv_url else csv_at_path src path)"

definition read_traffic :: "environ \<Rightarrow> sources \<Rightarrow> string \<Rightarrow> error + frame" where
  "read_traffic env src path =
     (case env ''TRAFFIC_API_URL'' of
        None \<Rightarrow> json_at_path src path
      | Some api_url \<Rightarrow> if api_url \<noteq> [] then json_at_url src api_url else json_at_path src path)"

definition load_public_transport_csv :: "environ \<Rightarrow> sources \<Rightarrow> string \<Rightarrow> error + frame" where
  "load_public_transport_csv env src path =
     (case read_public env src path of
        Inl e \<Rightarrow> Inl e
      | Inr df \<Rightarrow>
          let missing_cols = required_public - set (columns df)
          in if missing_cols \<noteq> {} then Inl (MissingColumns missing_cols)
             else Inr (frame_rename df ''timing'' ''timestamp''))"

definition load_traffic_data :: "environ \<Rightarrow> sources \<Rightarrow> string \<Rightarrow> error + frame" where
  "load_traffic_data env src path =
     (case read_traffic env src path of
        Inl e \<Rightarrow> Inl e
      | Inr df \<Rightarrow>
          let missing_cols = required_traffic - set (columns df)
          in if missing_cols \<noteq> {} then Inl (MissingColumns missing_cols)
             else Inr df)"

section \<open>The sink\<close>

text \<open>
  What is persisted is a table: the column names and, row by row, the cells under
  them. The three destinations are the processed CSV file, the database (a table per
  name) and the report file; a file that does not exist is \<open>None\<close>.
\<close>

definition cells :: "frame \<Rightarrow> cell list list" where
  "cells f = map (\<lambda>r. map r (columns f)) (rows f)"

type_synonym table = "string list \<times> cell list list"

definition to_table :: "frame \<Rightarrow> table" where
  "to_table f = (columns f, cells f)"

record destinations =
  processed_csv :: "table option"
  database :: "string \<Rightarrow> table option"
  summary_csv :: "table option"

text \<open>\<^verbatim>\<open>df.to_sql(table_name, conn, if_exists="replace", index=False)\<close>\<close>

definition load_to_database :: "frame \<Rightarrow> string \<Rightarrow> destinations \<Rightarrow> destinations" where
  "load_to_database df table_name w = w\<lparr>database := (database w)(table_name \<mapsto> to_table df)\<rparr>"

text \<open>
  \<^verbatim>\<open>df.groupby(keys)[vals].mean().reset_index()\<close>: a key that is not a column is a
  \<^verbatim>\<open>KeyError\<close>; rows with a missing key are left out; there is one row per distinct
  key, the keys in ascending order; the mean of a group skips missing values and is
  missing when there is none. A value that is neither a number nor missing is a
  \<^verbatim>\<open>TypeError\<close>.
\<close>

fun cell_rank :: "cell \<Rightarrow> nat \<times> string \<times> rat \<times> int" where
  "cell_rank Null = (0, [], 0, 0)"
| "cell_rank (Inf False) = (1, [], 0, 0)"
| "cell_rank (Num q) = (2, [], q, 0)"
| "cell_rank (Inf True) = (3, [], 0, 0)"
| "cell_rank (Ts t) = (4, [], 0, t)"
| "cell_rank (TsUtc t) = (5, [], 0, t)"
| "cell_rank (Str s) = (6, s, 0, 0)"

fun numbers :: "cell list \<Rightarrow> rat list" where
  "numbers [] = []"
| "numbers (Num q # cs) = q # numbers cs"
| "numbers (c # cs) = numbers cs"

text \<open>
  The mean of the values that are not missing; with an infinity among them it is that
  infinity, and not a number when both infinities are there.
\<close>

definition mean :: "cell list \<Rightarrow> cell" where
  "mean cs =
     (if Inf True \<in> set cs \<and> Inf False \<in> set cs then Null
      else if Inf True \<in> set cs then Inf True
      else if Inf False \<in> set cs then Inf False
      else if numbers cs = [] then Null
      else Num (sum_list (numbers cs) / of_nat (length (numbers cs))))"

fun numeric_or_null :: "cell \<Rightarrow> bool" where
  "numeric_or_null Null = True"
| "numeric_or_null (Num q) = True"
| "numeric_or_null (Inf b) = True"
| "numeric_or_null c = False"

definition mk_row :: "(string \<times> cell) list \<Rightarrow> row" where
  "mk_row kvs = (\<lambda>c. case map_of kvs c of None \<Rightarrow> Null | Some v \<Rightarrow> v)"

definition groupby_mean :: "frame \<Rightarrow> string list \<Rightarrow> string list \<Rightarrow> error + frame" where
  "groupby_mean f ks vs =
     (case filter (\<lambda>k. k \<notin> set (columns f)) ks of
        k # _ \<Rightarrow> Inl (KeyError k)
      | [] \<Rightarrow>
     (case filter (\<lambda>v. v \<notin> set (columns f)) vs of
        v # _ \<Rightarrow> Inl (KeyError v)
      | [] \<Rightarrow>
          if \<not> list_all (\<lambda>r. list_all (\<lambda>v. numeric_or_null (r v)) vs) (rows f)
          then Inl TypeError
          else
            let live = filter (\<lambda>r. Null \<notin> set (map r ks)) (rows f);
                keys = sort_key (map cell_rank) (remdups (map (\<lambda>r. map r ks) live))
            in Inr \<lparr>columns = ks @ vs,
                    rows = map (\<lambda>k. mk_row (zip ks k @
                               map (\<lambda>v. (v, mean (map (\<lambda>r. r v)
                                      (filter (\<lambda>r. map r ks = k) live)))) vs))
                             keys\<rparr>))"

definition create_summary_report :: "frame \<Rightarrow> destinations \<Rightarrow> error + destinations" where
  "create_summary_report df w =
     (case groupby_mean df [''route_id'', ''city_public'', ''bus_stop'']
             [''ridership'', ''congestion_index''] of
        Inl e \<Rightarrow> Inl e
      | Inr g \<Rightarrow>
          Inr (w\<lparr>summary_csv := Some (to_table
                 (frame_rename (frame_rename g ''ridership'' ''avg_ridership'')
                    ''congestion_index'' ''avg_congestion_index''))\<rparr>))"

section \<open>The orchestrator\<close>

text \<open>
  \<^verbatim>\<open>maybe_git_pull\<close> may refresh what the readers will see, and never fails the run.
  Logging is left out: the log file is not a destination.
\<close>

definition lower_char :: "char \<Rightarrow> char" where
  "lower_char c =
     (let n = (of_char c :: nat) in if 65 \<le> n \<and> n \<le> 90 then char_of (n + 32) else c)"

definition maybe_git_pull :: "environ \<Rightarrow> (sources \<Rightarrow> sources) \<Rightarrow> sources \<Rightarrow> sources" where
  "maybe_git_pull env git_pull src =
     (if map lower_char (case env ''DATA_GIT_PULL'' of None \<Rightarrow> ''false'' | Some v \<Rightarrow> v) = ''true''
      then git_pull src else src)"

definition run_pipeline ::
  "environ \<Rightarrow> (sources \<Rightarrow> sources) \<Rightarrow> (cell list \<Rightarrow> cell \<Rightarrow> stamp option) \<Rightarrow> (cell \<Rightarrow> number option)
    \<Rightarrow> sources \<Rightarrow> destinations \<Rightarrow> (error + unit) \<times> destinations" where
  "run_pipeline env git_pull pd_parse pd_num src0 w =
     (let src = maybe_git_pull env git_pull src0 in
      case load_public_transport_csv env src ''raw/transport.csv'' of
        Inl e \<Rightarrow> (Inl e, w)
      | Inr pub0 \<Rightarrow>
     (case load_traffic_data env src ''raw/traffic.json'' of
        Inl e \<Rightarrow> (Inl e, w)
      | Inr traf0 \<Rightarrow>
     (case validate_and_clean pd_parse pd_num [pub0, traf0] 0 ''timestamp'' of
        Inl e \<Rightarrow> (Inl e, w)
      | Inr (h1, pub_df) \<Rightarrow>
     (case validate_and_clean pd_parse pd_num h1 1 ''timestamp'' of
        Inl e \<Rightarrow> (Inl e, w)
      | Inr (h2, traf_df) \<Rightarrow>
     (case build_unified_table h2 pub_df traf_df of
        (Inl e, h3) \<Rightarrow> (Inl e, w)
      | (Inr unified_df, h3) \<Rightarrow>
          let w1 = w\<lparr>processed_csv := Some (to_table (h3 ! unified_df))\<rparr>;
              w2 = load_to_database (h3 ! unified_df) ''transport_traffic'' w1
          in case create_summary_report (h3 ! unified_df) w2 of
               Inl e \<Rightarrow> (Inl e, w2)
             | Inr w3 \<Rightarrow> (Inr (), w3))))))"

section \<open>The failure notification\<close>

record email =
  subject :: string
  sender :: string
  recipient :: string
  content :: string

datatype log_entry = Info string | Warning string

record mail_state =
  outbox :: "email list"
  log :: "log_entry list"

text \<open>
  What \<^verbatim>\<open>send_failure_email\<close> calls is not the repository's: Python's \<^verbatim>\<open>int\<close>
  (\<open>None\<close> when it raises \<^verbatim>\<open>ValueError\<close>); the construction of the message
  (\<^verbatim>\<open>EmailMessage\<close>, the three header assignments and \<^verbatim>\<open>set_content\<close>), which
  gives the message or raises, as it does for a header value with a line break in it;
  \<^verbatim>\<open>ssl.create_default_context\<close>, which gives a context or raises; and the SMTP
  session (connect, \<^verbatim>\<open>starttls\<close>, \<^verbatim>\<open>login\<close>, \<^verbatim>\<open>send_message\<close>), which delivers the
  message (\<open>None\<close>) or raises an exception with a text.
\<close>

record mailer =
  to_int :: "string \<Rightarrow> int option"
  make_message :: "string \<Rightarrow> string \<Rightarrow> string \<Rightarrow> string \<Rightarrow> error + email"
  tls_context :: "error option"
  smtp_session :: "string \<Rightarrow> int \<Rightarrow> string \<Rightarrow> string \<Rightarrow> email \<Rightarrow> string option"

definition getenv_or :: "environ \<Rightarrow> string \<Rightarrow> string \<Rightarrow> string" where
  "getenv_or env k d = (case env k of None \<Rightarrow> d | Some v \<Rightarrow> v)"

text \<open>\<^verbatim>\<open>v or ""\<close> for a value that is a string or \<^verbatim>\<open>None\<close>; it is truthy when not empty.\<close>

definition or_empty :: "string option \<Rightarrow> string" where
  "or_empty v = (case v of None \<Rightarrow> [] | Some s \<Rightarrow> s)"

definition truthy :: "string option \<Rightarrow> bool" where
  "truthy v = (or_empty v \<noteq> [])"

text \<open>
  The port is converted first of all; the message and the TLS context are made after
  the settings are looked at. All three happen outside the \<^verbatim>\<open>try\<close>, which holds the
  SMTP session alone.
\<close>

definition send_failure_email ::
  "environ \<Rightarrow> mailer \<Rightarrow> string \<Rightarrow> string \<Rightarrow> mail_state \<Rightarrow> (error + unit) \<times> mail_state" where
  "send_failure_email env lib subj body st =
     (let smtp_host = env ''SMTP_HOST'' in
      case to_int lib (getenv_or env ''SMTP_PORT'' ''587'') of
        None \<Rightarrow> (Inl (IntValueError (getenv_or env ''SMTP_PORT'' ''587'')), st)
      | Some smtp_port \<Rightarrow>
          let smtp_user = env ''SMTP_USER'';
              smtp_pass = env ''SMTP_PASS'';
              to_addr = env ''ALERT_EMAIL_TO'';
              from_addr = getenv_or env ''ALERT_EMAIL_FROM'' (or_empty smtp_user)
          in if \<not> (truthy smtp_host \<and> truthy smtp_user \<and> truthy smtp_pass \<and> truthy to_addr
                    \<and> from_addr \<noteq> [])
             then (Inr (), st\<lparr>log := log st @
                     [Info ''Email not sent; SMTP or recipient env vars missing'']\<rparr>)
             else
               case make_message lib subj from_addr (or_empty to_addr) body of
                 Inl e \<Rightarrow> (Inl e, st)
               | Inr msg \<Rightarrow>
                   (case tls_context lib of
                      Some e \<Rightarrow> (Inl e, st)
                    | None \<Rightarrow>
                        (case smtp_session lib (or_empty smtp_host) smtp_port
                                (or_empty smtp_user) (or_empty smtp_pass) msg of
                           None \<Rightarrow> (Inr (), st\<lparr>outbox := outbox st @ [msg],
                                               log := log st @ [Info ''Failure email sent'']\<rparr>)
                         | Some e \<Rightarrow> (Inr (), st\<lparr>log := log st @
                                               [Warning (''Failed to send email: '' @ e)]\<rparr>))))"

section \<open>Sample conversions\<close>

text \<open>
  Conversions to run the pipeline and the notification on concrete data: stand-ins for
  what pandas and Python accept, on the plain inputs of the examples. The theorems hold
  for every conversion; these serve where one is evaluated.
\<close>

definition digit_val :: "char \<Rightarrow> nat option" where
  "digit_val c =
     (let n = (of_char c :: nat) in if 48 \<le> n \<and> n \<le> 57 then Some (n - 48) else None)"

fun digits_from :: "nat \<Rightarrow> string \<Rightarrow> nat option" where
  "digits_from acc [] = Some acc"
| "digits_from acc (c # cs) =
     (case digit_val c of None \<Rightarrow> None | Some d \<Rightarrow> digits_from (10 * acc + d) cs)"

definition decimal :: "string \<Rightarrow> nat option" where
  "decimal s = (if s = [] then None else digits_from 0 s)"

text \<open>Days from 1970-01-01 to a date of the proleptic Gregorian calendar.\<close>

definition days_from_civil :: "int \<Rightarrow> int \<Rightarrow> int \<Rightarrow> int" where
  "days_from_civil y m d =
     (let y' = (if m \<le> 2 then y - 1 else y);
          era = y' div 400;
          yoe = y' - era * 400;
          doy = (153 * (if m > 2 then m - 3 else m + 9) + 2) div 5 + d - 1;
          doe = yoe * 365 + yoe div 4 - yoe div 100 + doy
      in era * 146097 + doe - 719468)"

definition civil_ns :: "int \<Rightarrow> int \<Rightarrow> int \<Rightarrow> int \<Rightarrow> int \<Rightarrow> int \<Rightarrow> int" where
  "civil_ns y m d hh mi ss =
     ((days_from_civil y m d * 24 + hh) * 60 + mi) * minute_ns + ss * 1000000000"

text \<open>The text \<^verbatim>\<open>YYYY-MM-DD HH:MM:SS\<close>, and nothing else.\<close>

definition sample_datetime :: "string \<Rightarrow> int option" where
  "sample_datetime s =
     (if length s \<noteq> 19 \<or> s ! 4 \<noteq> CHR ''-'' \<or> s ! 7 \<noteq> CHR ''-'' \<or> s ! 10 \<noteq> CHR '' ''
         \<or> s ! 13 \<noteq> CHR '':'' \<or> s ! 16 \<noteq> CHR '':'' then None
      else case (decimal (take 4 s), decimal (take 2 (drop 5 s)), decimal (take 2 (drop 8 s)),
                 decimal (take 2 (drop 11 s)), decimal (take 2 (drop 14 s)),
                 decimal (take 2 (drop 17 s))) of
        (Some y, Some m, Some d, Some hh, Some mi, Some ss) \<Rightarrow>
          if 1 \<le> m \<and> m \<le> 12 \<and> 1 \<le> d \<and> d \<le> 31 \<and> hh < 24 \<and> mi < 60 \<and> ss < 60
          then Some (civil_ns (int y) (int m) (int d) (int hh) (int mi) (int ss))
          else None
      | _ \<Rightarrow> None)"

fun sample_parse :: "cell list \<Rightarrow> cell \<Rightarrow> stamp option" where
  "sample_parse col (Ts t) = Some (Naive t)"
| "sample_parse col (TsUtc t) = Some (Utc t)"
| "sample_parse col (Str s) = map_option Naive (sample_datetime s)"
| "sample_parse col c = None"

text \<open>
  The same with a clock to read: the text \<^verbatim>\<open>now\<close> parses to the time of the call.
\<close>

fun clock_parse :: "int \<Rightarrow> cell list \<Rightarrow> cell \<Rightarrow> stamp option" where
  "clock_parse now col (Str s) =
     (if s = ''now'' then Some (Naive now) else map_option Naive (sample_datetime s))"
| "clock_parse now col c = sample_parse col c"

text \<open>Numbers as they are, decimal texts, and the text \<^verbatim>\<open>inf\<close>.\<close>

fun sample_num :: "cell \<Rightarrow> number option" where
  "sample_num (Num q) = Some (Finite q)"
| "sample_num (Inf b) = Some (Infinite b)"
| "sample_num (Str s) =
     (if s = ''inf'' then Some (Infinite True)
      else map_option (\<lambda>n. Finite (of_nat n)) (decimal s))"
| "sample_num c = None"

text \<open>
  Python's \<^verbatim>\<open>int\<close> on a text of code points below 256: the whitespace around the
  number is dropped (tab to carriage return, the space, and the code points 133 and
  160), a sign may come first, then decimal digits, single underscores allowed between
  them.
\<close>

definition is_space :: "char \<Rightarrow> bool" where
  "is_space c =
     (let n = (of_char c :: nat) in (9 \<le> n \<and> n \<le> 13) \<or> n = 32 \<or> n = 133 \<or> n = 160)"

definition strip :: "string \<Rightarrow> string" where
  "strip s = rev (dropWhile is_space (rev (dropWhile is_space s)))"

fun digits_tail :: "nat \<Rightarrow> string \<Rightarrow> nat option" where
  "digits_tail acc [] = Some acc"
| "digits_tail acc [c] = (case digit_val c of None \<Rightarrow> None | Some d \<Rightarrow> Some (10 * acc + d))"
| "digits_tail acc (c # c' # cs) =
     (if c = CHR ''_''
      then (case digit_val c' of None \<Rightarrow> None | Some d \<Rightarrow> digits_tail (10 * acc + d) cs)
      else (case digit_val c of None \<Rightarrow> None | Some d \<Rightarrow> digits_tail (10 * acc + d) (c' # cs)))"

definition py_digits :: "string \<Rightarrow> nat option" where
  "py_digits s =
     (case s of
        [] \<Rightarrow> None
      | c # cs \<Rightarrow> (case digit_val c of None \<Rightarrow> None | Some d \<Rightarrow> digits_tail d cs))"

definition py_int :: "string \<Rightarrow> int option" where
  "py_int s =
     (case strip s of
        [] \<Rightarrow> None
      | c # cs \<Rightarrow>
          if c = CHR ''-'' then map_option (\<lambda>n. - int n) (py_digits cs)
          else if c = CHR ''+'' then map_option int (py_digits cs)
          else map_option int (py_digits (c # cs)))"

text \<open>
  A message builder that refuses a header value of several lines, as \<^verbatim>\<open>EmailMessage\<close>
  does: a value in which a line break (line feed, carriage return, and the code points
  11, 12, 28, 29, 30 and 133) is left once one line break at its end is dropped. What
  else \<^verbatim>\<open>EmailMessage\<close> refuses in an address is not part of this stand-in. A mailer
  is made of it, of \<open>py_int\<close>, of a TLS context that is there, and of a given SMTP
  session.
\<close>

definition is_break :: "char \<Rightarrow> bool" where
  "is_break c =
     (let n = (of_char c :: nat) in (10 \<le> n \<and> n \<le> 13) \<or> (28 \<le> n \<and> n \<le> 30) \<or> n = 133)"

definition chop_break :: "string \<Rightarrow> string" where
  "chop_break v =
     (case rev v of
        [] \<Rightarrow> []
      | c # r \<Rightarrow>
          if c = CHR 0x0A \<and> r \<noteq> [] \<and> hd r = CHR 0x0D then rev (tl r)
          else if is_break c then rev r
          else v)"

definition several_lines :: "string \<Rightarrow> bool" where
  "several_lines v = list_ex is_break (chop_break v)"

definition plain_message :: "string \<Rightarrow> string \<Rightarrow> string \<Rightarrow> string \<Rightarrow> error + email" where
  "plain_message subj from_addr to_addr body =
     (if several_lines subj \<or> several_lines from_addr \<or> several_lines to_addr
      then Inl (LibraryError
        ''Header values may not contain linefeed or carriage return characters'')
      else Inr \<lparr>subject = subj, sender = from_addr, recipient = to_addr, content = body\<rparr>)"

definition plain_mailer ::
  "(string \<Rightarrow> int \<Rightarrow> string \<Rightarrow> string \<Rightarrow> email \<Rightarrow> string option) \<Rightarrow> mailer" where
  "plain_mailer session =
     \<lparr>to_int = py_int, make_message = plain_message, tls_context = None,
      smtp_session = session\<rparr>"

section \<open>Sample data\<close>

text \<open>
  What a call of the cleaner returned, as tables: the DataFrame it returned, or every
  DataFrame of the store with the reference returned.
\<close>

definition result_table :: "error + heap \<times> ref \<Rightarrow> error + table" where
  "result_table res = (case res of Inl e \<Rightarrow> Inl e | Inr (h, df) \<Rightarrow> Inr (to_table (h ! df)))"

definition heap_tables :: "error + heap \<times> ref \<Rightarrow> error + table list \<times> ref" where
  "heap_tables res = (case res of Inl e \<Rightarrow> Inl e | Inr (h, df) \<Rightarrow> Inr (map to_table h, df))"



text \<open>
  Raw public records: a good one, one whose ridership is not a number, one whose
  timestamp does not parse, and one without a city whose ridership is a numeric text.
\<close>

definition sample_public :: frame where
  "sample_public =
     \<lparr>columns = [''route_id'', ''city'', ''bus_stop'', ''ridership'', ''timestamp''],
      rows = [mk_row [(''route_id'', Str ''R1''), (''city'', Str ''Pune''), (''bus_stop'', Str ''S1''),
                      (''ridership'', Num 120), (''timestamp'', Str ''2025-01-01 08:10:00'')],
              mk_row [(''route_id'', Str ''R2''), (''city'', Str ''Pune''), (''bus_stop'', Str ''S2''),
                      (''ridership'', Str ''not_a_number''),
                      (''timestamp'', Str ''2025-01-01 08:20:00'')],
              mk_row [(''route_id'', Str ''R3''), (''city'', Str ''Pune''), (''bus_stop'', Str ''S3''),
                      (''ridership'', Num 80), (''timestamp'', Str ''yesterday'')],
              mk_row [(''route_id'', Str ''R4''), (''city'', Null), (''bus_stop'', Str ''S4''),
                      (''ridership'', Str ''45''), (''timestamp'', Str ''2025-01-01 09:05:00'')]]\<rparr>"

text \<open>A raw public record with neither route nor city.\<close>

definition null_city_public :: frame where
  "null_city_public =
     \<lparr>columns = [''route_id'', ''city'', ''bus_stop'', ''ridership'', ''timestamp''],
      rows = [mk_row [(''route_id'', Null), (''city'', Null), (''bus_stop'', Str ''S4''),
                      (''ridership'', Num 45), (''timestamp'', Str ''2025-01-01 09:05:00'')]]\<rparr>"



text \<open>
  A raw public record whose ridership is the text \<^verbatim>\<open>inf\<close>. A cleaned public record
  at 1677-09-21 00:45:00, in the first, partial hour of the range of timestamps. A
  cleaned public record whose \<^verbatim>\<open>route_id\<close> is a number.
\<close>

definition infinite_public :: frame where
  "infinite_public =
     \<lparr>columns = [''route_id'', ''city'', ''bus_stop'', ''ridership'', ''timestamp''],
      rows = [mk_row [(''route_id'', Str ''R1''), (''city'', Str ''Pune''), (''bus_stop'', Str ''S1''),
                      (''ridership'', Str ''inf''), (''timestamp'', Str ''2025-01-01 08:10:00'')]]\<rparr>"



text \<open>
  A run's surroundings: no environment variable set, a refresh that changes nothing,
  local files that hold the given transport and traffic data (no endpoint answers),
  and destinations that are empty or hold the outputs of some earlier run.
\<close>

definition no_env :: environ where
  "no_env = (\<lambda>k. None)"

definition no_refresh :: "sources \<Rightarrow> sources" where
  "no_refresh src = src"

definition files :: "frame \<Rightarrow> frame \<Rightarrow> sources" where
  "files transport traffic =
     \<lparr>csv_at_url = (\<lambda>u. Inl (SourceUnavailable u)),
      csv_at_path = (\<lambda>p. Inr transport),
      json_at_url = (\<lambda>u. Inl (SourceUnavailable u)),
      json_at_path = (\<lambda>p. Inr traffic)\<rparr>"

definition no_outputs :: destinations where
  "no_outputs = \<lparr>processed_csv = None, database = (\<lambda>n. None), summary_csv = None\<rparr>"

definition stale_outputs :: destinations where
  "stale_outputs =
     \<lparr>processed_csv = Some ([''old''], [[Str ''x'']]),
      database = (\<lambda>n. Some ([''old''], [[Str ''y'']])),
      summary_csv = Some ([''old''], [])\<rparr>"

text \<open>
  Raw sources with exactly the declared columns; traffic data that has a \<^verbatim>\<open>city\<close>
  field as well; transport data without \<^verbatim>\<open>city\<close>; traffic data without
  \<^verbatim>\<open>avg_speed\<close>.
\<close>

definition declared_transport :: frame where
  "declared_transport =
     \<lparr>columns = [''route_id'', ''city'', ''bus_stop'', ''ridership'', ''timing''],
      rows = [mk_row [(''route_id'', Str ''R1''), (''city'', Str ''Pune''), (''bus_stop'', Str ''S1''),
                      (''ridership'', Num 120), (''timing'', Str ''2025-01-01 08:10:00'')]]\<rparr>"

definition declared_traffic :: frame where
  "declared_traffic =
     \<lparr>columns = [''route_id'', ''avg_speed'', ''congestion_index'', ''timestamp''],
      rows = [mk_row [(''route_id'', Str ''R1''), (''avg_speed'', Num (37 / 2)),
                      (''congestion_index'', Num (7 / 10)),
                      (''timestamp'', Str ''2025-01-01 08:45:00'')]]\<rparr>"


definition no_city_transport :: frame where
  "no_city_transport =
     \<lparr>columns = [''route_id'', ''bus_stop'', ''ridership'', ''timing''],
      rows = [mk_row [(''route_id'', Str ''R1''), (''bus_stop'', Str ''S1''),
                      (''ridership'', Num 120), (''timing'', Str ''2025-01-01 08:10:00'')]]\<rparr>"

definition no_speed_traffic :: frame where
  "no_speed_traffic =
     \<lparr>columns = [''route_id'', ''congestion_index'', ''timestamp''],
      rows = [mk_row [(''route_id'', Str ''R1''), (''congestion_index'', Num (7 / 10)),
                      (''timestamp'', Str ''2025-01-01 08:45:00'')]]\<rparr>"

text \<open>Raw sources whose time values are the text \<^verbatim>\<open>now\<close>.\<close>

definition now_transport :: frame where
  "now_transport =
     \<lparr>columns = [''route_id'', ''city'', ''bus_stop'', ''ridership'', ''timing''],
      rows = [mk_row [(''route_id'', Str ''R1''), (''city'', Str ''Pune''), (''bus_stop'', Str ''S1''),
                      (''ridership'', Num 120), (''timing'', Str ''now'')]]\<rparr>"

definition now_traffic :: frame where
  "now_traffic =
     \<lparr>columns = [''route_id'', ''avg_speed'', ''congestion_index'', ''timestamp''],
      rows = [mk_row [(''route_id'', Str ''R1''), (''avg_speed'', Num (37 / 2)),
                      (''congestion_index'', Num (7 / 10)), (''timestamp'', Str ''now'')]]\<rparr>"

text \<open>
  Notification settings: all but the sender address; all but the host; a port that is
  not a number; a sender address with a line feed in it. An SMTP session that delivers,
  and one that fails.
\<close>

definition smtp_env :: environ where
  "smtp_env = map_of [(''SMTP_HOST'', ''smtp.example.org''), (''SMTP_USER'', ''etl@example.org''),
     (''SMTP_PASS'', ''secret''), (''ALERT_EMAIL_TO'', ''ops@example.org'')]"

definition no_host_env :: environ where
  "no_host_env = map_of [(''SMTP_USER'', ''etl@example.org''), (''SMTP_PASS'', ''secret''),
     (''ALERT_EMAIL_TO'', ''ops@example.org''), (''ALERT_EMAIL_FROM'', ''etl@example.org'')]"

definition bad_port_env :: environ where
  "bad_port_env = map_of [(''SMTP_PORT'', ''abc'')]"

definition bad_sender_env :: environ where
  "bad_sender_env = map_of [(''SMTP_HOST'', ''smtp.example.org''), (''SMTP_USER'', ''etl@example.org''),
     (''SMTP_PASS'', ''secret''), (''ALERT_EMAIL_TO'', ''ops@example.org''),
     (''ALERT_EMAIL_FROM'', [CHR ''a'', CHR 0x0A, CHR ''b''])]"

definition delivering :: "string \<Rightarrow> int \<Rightarrow> string \<Rightarrow> string \<Rightarrow> email \<Rightarrow> string option" where
  "delivering host port user pass msg = None"

definition refusing :: "string \<Rightarrow> int \<Rightarrow> string \<Rightarrow> string \<Rightarrow> email \<Rightarrow> string option" where
  "refusing host port user pass msg = Some ''Connection refused''"

definition no_mail :: mail_state where
  "no_mail = \<lparr>outbox = [], log = []\<rparr>"

section \<open>What the stages compute, row by row\<close>

text \<open>
  The cleaner described on rows: the column handed to \<^verbatim>\<open>to_datetime\<close> is the time
  column without its missing values; a row is cleaned by converting its time cell and
  then the numeric fields the DataFrame has, in the order of the source; a row is kept
  when its time cell is present and converts, and none of its cleaned numeric fields is
  missing.
\<close>

definition time_column :: "frame \<Rightarrow> string \<Rightarrow> cell list" where
  "time_column f tc = map (\<lambda>r. r tc) (filter (\<lambda>r. r tc \<noteq> Null) (rows f))"

definition coerce_row :: "(cell \<Rightarrow> number option) \<Rightarrow> string list \<Rightarrow> row \<Rightarrow> row" where
  "coerce_row pd_num cs r = fold (\<lambda>c r. r(c := numeric_cell pd_num (r c))) cs r"

definition present_numeric :: "frame \<Rightarrow> string list" where
  "present_numeric f = filter (\<lambda>c. c \<in> set (columns f)) numeric_fields"

definition cleaned_row ::
  "(cell list \<Rightarrow> cell \<Rightarrow> stamp option) \<Rightarrow> (cell \<Rightarrow> number option) \<Rightarrow> frame \<Rightarrow> string \<Rightarrow> row \<Rightarrow> row" where
  "cleaned_row pd_parse pd_num f tc r =
     coerce_row pd_num (present_numeric f)
       (r(tc := datetime_cell (pd_parse (time_column f tc)) (r tc)))"

definition kept ::
  "(cell list \<Rightarrow> cell \<Rightarrow> stamp option) \<Rightarrow> (cell \<Rightarrow> number option) \<Rightarrow> frame \<Rightarrow> string \<Rightarrow> row \<Rightarrow> bool" where
  "kept pd_parse pd_num f tc r =
     (r tc \<noteq> Null \<and> datetime_cell (pd_parse (time_column f tc)) (r tc) \<noteq> Null
      \<and> (\<forall>c\<in>set (present_numeric f). cleaned_row pd_parse pd_num f tc r c \<noteq> Null))"

definition clean_frame ::
  "(cell list \<Rightarrow> cell \<Rightarrow> stamp option) \<Rightarrow> (cell \<Rightarrow> number option) \<Rightarrow> frame \<Rightarrow> string \<Rightarrow> frame" where
  "clean_frame pd_parse pd_num f tc =
     \<lparr>columns = columns f,
      rows = map (cleaned_row pd_parse pd_num f tc) (filter (kept pd_parse pd_num f tc) (rows f))\<rparr>"










section \<open>Hour flooring is idempotent and truncates\<close>

lemma hour_start_mod: "hour_start t mod hour_ns = 0"
  by (simp add: hour_start_def hour_ns_def mod_diff_right_eq)

lemma hour_start_idem: "hour_start (hour_start t) = hour_start t"
  using hour_start_mod [of t] by (simp add: hour_start_def [of "hour_start t"])

lemma hour_cell_idem: "hour_cell (hour_cell c) = hour_cell c"
  by (cases c) (simp_all add: hour_start_idem)

lemma hour_start_split: "hour_start t = t - (minute_of t * minute_ns + t mod minute_ns)"
proof -
  have "t mod hour_ns = t mod (minute_ns * 60)"
    by (simp add: hour_ns_def minute_ns_def)
  also have "\<dots> = minute_ns * ((t div minute_ns) mod 60) + t mod minute_ns"
    by (simp add: zmod_zmult2_eq)
  finally show ?thesis
    by (simp add: hour_start_def minute_of_def mult.commute)
qed

lemma minute_of_hour_start: "minute_of (hour_start t) = 0"
proof -
  have "hour_start t = (t div hour_ns) * 60 * minute_ns"
    by (simp add: hour_start_def hour_ns_def minute_ns_def minus_mod_eq_mult_div)
  then show ?thesis
    by (simp add: minute_of_def minute_ns_def)
qed

lemma hour_start_bounds: "hour_start t \<le> t" "t < hour_start t + hour_ns"
  by (simp_all add: hour_start_def hour_ns_def)

lemma floor_hour_again: "floor_hour t = Inr u \<Longrightarrow> floor_hour u = Inr u"
  by (auto simp: floor_hour_def hour_start_idem split: if_splits)

lemma hour_cell_keeps:
  "naive_or_null c \<Longrightarrow> naive_or_null (hour_cell c)"
  "aware_or_null c \<Longrightarrow> aware_or_null (hour_cell c)"
  "\<not> floor_overflows c \<Longrightarrow> \<not> floor_overflows (hour_cell c)"
  by (cases c; simp add: hour_start_idem)+

lemma dt_floor_again:
  assumes "dt_floor xs = Inr ys"
  shows "dt_floor ys = Inr ys"
proof -
  have ys: "ys = map hour_cell xs" and dc: "datetime_column xs"
    and no: "\<not> list_ex floor_overflows xs"
    using assms by (auto simp: dt_floor_def split: if_splits)
  have "datetime_column ys"
    using dc unfolding ys datetime_column_def list_all_iff
    by (auto intro: hour_cell_keeps)
  moreover have "\<not> list_ex floor_overflows ys"
    using no unfolding ys list_ex_iff by (auto dest: hour_cell_keeps(3))
  moreover have "map hour_cell ys = ys"
    unfolding ys by (simp add: hour_cell_idem)
  ultimately show ?thesis by (simp add: dt_floor_def)
qed

text \<open>
  C7, as the code has it. The claim that flooring gives, for every timestamp, the start
  of its hour fails in the first, partial hour of the range of timestamps: the start of
  that hour is below the least 64-bit integer, and flooring 1677-09-21 00:45:00, a
  timestamp at minute 45 that \<^verbatim>\<open>datetime64[ns]\<close> holds, raises \<^verbatim>\<open>OverflowError\<close>.
\<close>

theorem first_hour_floor_overflows:
  "representable (- 9223370100000000000)
   \<and> minute_of (- 9223370100000000000) = 45
   \<and> floor_hour (- 9223370100000000000) = Inl OverflowError
   \<and> dt_floor [Ts (- 9223370100000000000)] = Inl OverflowError"
  by (simp add: representable_def int64_min_def int64_max_def minute_of_def minute_ns_def
      floor_hour_def hour_start_def hour_ns_def dt_floor_def datetime_column_def)

text \<open>
  C7, amended. Wherever flooring returns, it is idempotent and truncates: flooring the
  result again gives the result; the result is the timestamp less its minutes and what
  is below a minute, so it is never after the timestamp and less than an hour before
  it, its own minute is 0, and a timestamp at minute 45 lies between 45 and 46 minutes
  after its bucket, which is the start of its own hour, not of the next. Flooring
  returns for every timestamp that is an hour or more after the least 64-bit integer;
  it raises \<^verbatim>\<open>OverflowError\<close>, and nothing else, exactly when the start of the hour
  is below that integer. A column of one timestamp floors as the timestamp does, and
  flooring a floored column gives the same column.
\<close>

theorem hour_floor_idempotent:
  "(\<forall>u. floor_hour t = Inr u \<longrightarrow>
        floor_hour u = Inr u
      \<and> u = t - (minute_of t * minute_ns + t mod minute_ns)
      \<and> u \<le> t \<and> t < u + hour_ns \<and> u mod hour_ns = 0 \<and> minute_of u = 0
      \<and> (minute_of t = 45 \<longrightarrow> u + 45 * minute_ns \<le> t \<and> t < u + 46 * minute_ns))
   \<and> (int64_min + hour_ns \<le> t \<longrightarrow> (\<exists>u. floor_hour t = Inr u))
   \<and> (\<forall>e. floor_hour t = Inl e \<longrightarrow> e = OverflowError \<and> t - t mod hour_ns < int64_min)
   \<and> dt_floor [Ts t] = (case floor_hour t of Inl e \<Rightarrow> Inl e | Inr u \<Rightarrow> Inr [Ts u])
   \<and> (\<forall>ys. dt_floor xs = Inr ys \<longrightarrow> dt_floor ys = Inr ys)"
proof -
  have sub: "0 \<le> t mod minute_ns" "t mod minute_ns < minute_ns"
    by (simp_all add: minute_ns_def)
  have m45: "minute_of t = 45 \<longrightarrow>
      hour_start t + 45 * minute_ns \<le> t \<and> t < hour_start t + 46 * minute_ns"
    using sub by (simp add: hour_start_split)
  have val: "\<forall>u. floor_hour t = Inr u \<longrightarrow>
        floor_hour u = Inr u
      \<and> u = t - (minute_of t * minute_ns + t mod minute_ns)
      \<and> u \<le> t \<and> t < u + hour_ns \<and> u mod hour_ns = 0 \<and> minute_of u = 0
      \<and> (minute_of t = 45 \<longrightarrow> u + 45 * minute_ns \<le> t \<and> t < u + 46 * minute_ns)"
  proof (intro allI impI)
    fix u assume f: "floor_hour t = Inr u"
    then have u: "u = hour_start t"
      by (auto simp: floor_hour_def split: if_splits)
    show "floor_hour u = Inr u
      \<and> u = t - (minute_of t * minute_ns + t mod minute_ns)
      \<and> u \<le> t \<and> t < u + hour_ns \<and> u mod hour_ns = 0 \<and> minute_of u = 0
      \<and> (minute_of t = 45 \<longrightarrow> u + 45 * minute_ns \<le> t \<and> t < u + 46 * minute_ns)"
      unfolding u
      using floor_hour_again [OF f] hour_start_split [of t] hour_start_bounds [of t]
        hour_start_mod [of t] minute_of_hour_start [of t] m45
      by (simp only: u simp_thms)
  qed
  have ret: "int64_min + hour_ns \<le> t \<longrightarrow> (\<exists>u. floor_hour t = Inr u)"
    using hour_start_bounds(2) [of t] by (simp add: floor_hour_def)
  have err: "\<forall>e. floor_hour t = Inl e \<longrightarrow> e = OverflowError \<and> t - t mod hour_ns < int64_min"
    by (auto simp: floor_hour_def hour_start_def split: if_splits)
  have one: "dt_floor [Ts t] = (case floor_hour t of Inl e \<Rightarrow> Inl e | Inr u \<Rightarrow> Inr [Ts u])"
    by (simp add: dt_floor_def floor_hour_def datetime_column_def)
  have col: "\<forall>ys. dt_floor xs = Inr ys \<longrightarrow> dt_floor ys = Inr ys"
    using dt_floor_again by blast
  show ?thesis
    using val ret err one col by (intro conjI)
qed

theorem hour_floor_idempotent_witness:
  "floor_hour 1735721100000000000 = Inr 1735718400000000000
   \<and> minute_of 1735721100000000000 = 45
   \<and> int64_min + hour_ns \<le> 1735721100000000000
   \<and> floor_hour 1735718400000000000 = Inr 1735718400000000000
   \<and> 1735718400000000000 + 45 * minute_ns \<le> (1735721100000000000 :: int)
   \<and> dt_floor [Ts 1735721100000000000, Null] = Inr [Ts 1735718400000000000, Null]
   \<and> dt_floor [Ts 1735718400000000000, Null] = Inr [Ts 1735718400000000000, Null]"
  using hour_floor_idempotent [of 1735721100000000000 "[Ts 1735721100000000000, Null]"]
  by (simp add: minute_of_def floor_hour_def hour_start_def minute_ns_def hour_ns_def
      int64_min_def dt_floor_def datetime_column_def)

section \<open>The cleaner, step by step\<close>

lemma map2_same: "map2 g xs (map f xs) = map (\<lambda>x. g x (f x)) xs"
  by (induction xs) auto

lemma frame_setitem_present:
  "c \<in> set (columns f) \<Longrightarrow>
   frame_setitem f c (map (\<lambda>r. g (r c)) (rows f)) =
     \<lparr>columns = columns f, rows = map (\<lambda>r. r(c := g (r c))) (rows f)\<rparr>"
  using map2_same [of "\<lambda>r v. r(c := v)" "rows f" "\<lambda>r. g (r c)"]
  by (simp add: frame_setitem_def)

lemma coerce_if_present_last:
  "coerce_if_present pd_num (h @ [f]) (length h) c =
     Inr (h @ [if c \<in> set (columns f)
               then \<lparr>columns = columns f, rows = map (\<lambda>r. r(c := numeric_cell pd_num (r c))) (rows f)\<rparr>
               else f])"
  by (simp add: coerce_if_present_def getitem_def setitem_def to_numeric_def
      frame_setitem_present comp_def)

lemma dropna_each_result:
  "df < length h \<Longrightarrow> set cs \<subseteq> set (columns (h ! df)) \<Longrightarrow>
   \<exists>extra df'. dropna_each h df cs = Inr (h @ extra, df')
      \<and> df' < length (h @ extra) \<and> (df' = df \<or> length h \<le> df')
      \<and> (h @ extra) ! df' =
          \<lparr>columns = columns (h ! df),
           rows = filter (\<lambda>r. \<forall>c\<in>set cs. r c \<noteq> Null) (rows (h ! df))\<rparr>"
proof (induction cs arbitrary: h df)
  case Nil
  then show ?case
    by (intro exI [of _ "[]"] exI [of _ df]) simp
next
  case (Cons c cs)
  let ?g = "frame_dropna (h ! df) c"
  have step: "dropna h df c = Inr (h @ [?g], length h)"
    using Cons.prems by (simp add: dropna_def)
  have "set cs \<subseteq> set (columns ((h @ [?g]) ! length h))"
    using Cons.prems by (simp add: frame_dropna_def)
  from Cons.IH [OF _ this]
  obtain extra df' where rec: "dropna_each (h @ [?g]) (length h) cs = Inr ((h @ [?g]) @ extra, df')"
    and b: "df' < length ((h @ [?g]) @ extra)" "df' = length h \<or> length (h @ [?g]) \<le> df'"
    and fr: "((h @ [?g]) @ extra) ! df' =
          \<lparr>columns = columns ((h @ [?g]) ! length h),
           rows = filter (\<lambda>r. \<forall>c\<in>set cs. r c \<noteq> Null) (rows ((h @ [?g]) ! length h))\<rparr>"
    by auto
  show ?case
  proof (intro exI [of _ "?g # extra"] exI [of _ df'] conjI)
    show "dropna_each h df (c # cs) = Inr (h @ ?g # extra, df')"
      using step rec by simp
    show "df' < length (h @ ?g # extra)" using b by simp
    show "df' = df \<or> length h \<le> df'" using b by auto
    show "(h @ ?g # extra) ! df' =
      \<lparr>columns = columns (h ! df),
         rows = filter (\<lambda>r. \<forall>c\<in>set (c # cs). r c \<noteq> Null) (rows (h ! df))\<rparr>"
      using fr by (auto simp: frame_dropna_def intro: filter_cong)
  qed
qed

lemma clean_rows_fuse:
  "filter (\<lambda>r. \<forall>c\<in>set cs. r c \<noteq> Null)
     (map (coerce_row pd_num cs)
       (filter (\<lambda>r. r tc \<noteq> Null)
         (map (\<lambda>r. r(tc := g (r tc))) (filter (\<lambda>r. r tc \<noteq> Null) xs)))) =
   map (\<lambda>r. coerce_row pd_num cs (r(tc := g (r tc))))
     (filter (\<lambda>r. r tc \<noteq> Null \<and> g (r tc) \<noteq> Null
        \<and> (\<forall>c\<in>set cs. coerce_row pd_num cs (r(tc := g (r tc))) c \<noteq> Null)) xs)"
  by (induction xs) auto

lemma coerce_three:
  "map (\<lambda>r. if c3 \<in> set cols then r(c3 := n (r c3)) else r)
     (map (\<lambda>r. if c2 \<in> set cols then r(c2 := n (r c2)) else r)
       (map (\<lambda>r. if c1 \<in> set cols then r(c1 := n (r c1)) else r) xs)) =
   map (fold (\<lambda>c r. r(c := n (r c))) (filter (\<lambda>c. c \<in> set cols) [c1, c2, c3])) xs"
  by (induction xs) auto

lemma validate_and_clean_result:
  assumes df: "df < length h" and tc: "tc \<in> set (columns (h ! df))"
  shows "\<exists>extra df'. validate_and_clean pd_parse pd_num h df tc = Inr (h @ extra, df')
      \<and> length h \<le> df' \<and> df' < length (h @ extra)
      \<and> (h @ extra) ! df' = clean_frame pd_parse pd_num (h ! df) tc"
proof -
  let ?f = "h ! df"
  let ?g = "datetime_cell (pd_parse (time_column ?f tc))"
  let ?n = "numeric_cell pd_num"
  let ?A = "frame_dropna ?f tc"
  let ?B = "\<lparr>columns = columns ?f, rows = map (\<lambda>r. r(tc := ?g (r tc))) (rows ?A)\<rparr>"
  let ?C = "frame_dropna ?B tc"
  let ?D = "\<lparr>columns = columns ?f,
             rows = map (coerce_row pd_num (present_numeric ?f)) (rows ?C)\<rparr>"
  let ?h6 = "(h @ [?B]) @ [?D]"
  have s1: "dropna h df tc = Inr (h @ [?A], length h)"
    using df tc by (simp add: dropna_def)
  have s2: "getitem (h @ [?A]) (length h) tc = Inr (time_column ?f tc)"
    using tc by (simp add: getitem_def frame_dropna_def time_column_def)
  have tcol: "to_datetime pd_parse (time_column ?f tc) = map (\<lambda>r. ?g (r tc)) (rows ?A)"
    by (simp add: to_datetime_def time_column_def frame_dropna_def)
  have B: "frame_setitem ?A tc (map (\<lambda>r. ?g (r tc)) (rows ?A)) = ?B"
    using tc frame_setitem_present [of tc ?A ?g] by (simp add: frame_dropna_def)
  have s3: "setitem (h @ [?A]) (length h) tc (to_datetime pd_parse (time_column ?f tc)) =
      Inr (h @ [?B])"
    unfolding tcol by (simp add: setitem_def B)
  have s4: "dropna (h @ [?B]) (length h) tc = Inr ((h @ [?B]) @ [?C], length (h @ [?B]))"
    using tc by (simp add: dropna_def)
  have colC: "columns ?C = columns ?f"
    by (simp add: frame_dropna_def)
  have s5: "coerce_if_present pd_num ((h @ [?B]) @ [?C]) (length (h @ [?B])) ''ridership'' =
      Inr ((h @ [?B]) @ [if ''ridership'' \<in> set (columns ?f)
          then \<lparr>columns = columns ?f,
                rows = map (\<lambda>r. r(''ridership'' := ?n (r ''ridership''))) (rows ?C)\<rparr>
          else ?C])" (is "_ = Inr (_ @ [?C1])")
    using coerce_if_present_last [of pd_num "h @ [?B]" ?C "''ridership''"]
    by (simp only: colC)
  have colC1: "columns ?C1 = columns ?f"
    by (simp add: frame_dropna_def)
  have s6: "coerce_if_present pd_num ((h @ [?B]) @ [?C1]) (length (h @ [?B])) ''avg_speed'' =
      Inr ((h @ [?B]) @ [if ''avg_speed'' \<in> set (columns ?f)
          then \<lparr>columns = columns ?f,
                rows = map (\<lambda>r. r(''avg_speed'' := ?n (r ''avg_speed''))) (rows ?C1)\<rparr>
          else ?C1])" (is "_ = Inr (_ @ [?C2])")
    using coerce_if_present_last [of pd_num "h @ [?B]" ?C1 "''avg_speed''"]
    by (simp only: colC1)
  have colC2: "columns ?C2 = columns ?f"
    by (simp add: frame_dropna_def)
  have s7: "coerce_if_present pd_num ((h @ [?B]) @ [?C2]) (length (h @ [?B]))
        ''congestion_index'' =
      Inr ((h @ [?B]) @ [if ''congestion_index'' \<in> set (columns ?f)
          then \<lparr>columns = columns ?f,
                rows = map (\<lambda>r. r(''congestion_index'' := ?n (r ''congestion_index'')))
                  (rows ?C2)\<rparr>
          else ?C2])" (is "_ = Inr (_ @ [?C3])")
    using coerce_if_present_last [of pd_num "h @ [?B]" ?C2 "''congestion_index''"]
    by (simp only: colC2)
  have rowsC3: "rows ?C3 = map (coerce_row pd_num (present_numeric ?f)) (rows ?C)"
    using coerce_three [of "''congestion_index''" "columns ?f" ?n "''avg_speed''"
        "''ridership''" "rows ?C"]
    by (simp add: coerce_row_def [abs_def] present_numeric_def numeric_fields_def
        frame_dropna_def)
  have colC3: "columns ?C3 = columns ?f"
    by (simp add: frame_dropna_def)
  have C3: "?C3 = ?D"
    using rowsC3 colC3 by (intro frame.equality) simp_all
  have D: "?h6 ! length (h @ [?B]) = ?D"
    by (simp only: nth_append_length)
  have sub: "set (present_numeric ?f) \<subseteq> set (columns (?h6 ! length (h @ [?B])))"
    unfolding D by (auto simp: present_numeric_def)
  have "length (h @ [?B]) < length ?h6" by simp
  from dropna_each_result [OF this sub]
  obtain extra df' where
    r: "dropna_each ?h6 (length (h @ [?B])) (present_numeric ?f) = Inr (?h6 @ extra, df')"
    and b: "df' < length (?h6 @ extra)" "df' = length (h @ [?B]) \<or> length ?h6 \<le> df'"
    and fr: "(?h6 @ extra) ! df' =
      \<lparr>columns = columns (?h6 ! length (h @ [?B])),
       rows = filter (\<lambda>r. \<forall>c\<in>set (present_numeric ?f). r c \<noteq> Null)
         (rows (?h6 ! length (h @ [?B])))\<rparr>"
    by blast
  have final: "(?h6 @ extra) ! df' = clean_frame pd_parse pd_num ?f tc"
    unfolding fr D
    using clean_rows_fuse [of "present_numeric ?f" pd_num tc ?g "rows ?f"]
    by (simp add: clean_frame_def frame_dropna_def cleaned_row_def [abs_def] kept_def [abs_def])
  have run: "validate_and_clean pd_parse pd_num h df tc = Inr (?h6 @ extra, df')"
    unfolding validate_and_clean_def s1 sum.case prod.case s2 s3 s4 s5 s6 s7 C3 D
    using r by (simp add: present_numeric_def)
  show ?thesis
  proof (intro exI [of _ "[?B, ?D] @ extra"] exI [of _ df'] conjI)
    show "validate_and_clean pd_parse pd_num h df tc = Inr (h @ [?B, ?D] @ extra, df')"
      using run by simp
    show "length h \<le> df'" using b by auto
    show "df' < length (h @ [?B, ?D] @ extra)" using b by simp
    show "(h @ [?B, ?D] @ extra) ! df' = clean_frame pd_parse pd_num ?f tc"
      using final by simp
  qed
qed

section \<open>What the cleaner guarantees\<close>

lemma coerce_row_other: "c \<notin> set cs \<Longrightarrow> coerce_row pd_num cs r c = r c"
  unfolding coerce_row_def by (induction cs arbitrary: r) auto

lemma coerce_row_in:
  "distinct cs \<Longrightarrow> c \<in> set cs \<Longrightarrow> coerce_row pd_num cs r c = numeric_cell pd_num (r c)"
proof (induction cs arbitrary: r)
  case Nil
  then show ?case by simp
next
  case (Cons a cs)
  show ?case
  proof (cases "c = a")
    case True
    then have "c \<notin> set cs" using Cons.prems by simp
    then have "coerce_row pd_num cs (r(a := numeric_cell pd_num (r a))) c =
        (r(a := numeric_cell pd_num (r a))) c"
      by (rule coerce_row_other)
    then show ?thesis using True by (simp add: coerce_row_def)
  next
    case False
    then have "coerce_row pd_num cs (r(a := numeric_cell pd_num (r a))) c =
        numeric_cell pd_num ((r(a := numeric_cell pd_num (r a))) c)"
      using Cons by simp
    then show ?thesis using False by (simp add: coerce_row_def)
  qed
qed

lemma distinct_present_numeric: "distinct (present_numeric f)"
  by (simp add: present_numeric_def numeric_fields_def)

lemma set_present_numeric:
  "c \<in> set (present_numeric f) \<longleftrightarrow> c \<in> set numeric_fields \<and> c \<in> set (columns f)"
  by (auto simp: present_numeric_def)

lemma number_cell_cases: "(\<exists>q. number_cell x = Num q) \<or> (\<exists>b. number_cell x = Inf b)"
  by (cases x) simp_all

lemma numeric_cell_number:
  "numeric_cell n c \<noteq> Null \<Longrightarrow>
   (\<exists>q. numeric_cell n c = Num q) \<or> (\<exists>b. numeric_cell n c = Inf b)"
  using number_cell_cases by (cases c) (auto split: option.splits)

lemma stamp_cell_cases:
  "stamp_cell s \<noteq> Null \<Longrightarrow>
   \<exists>t. representable t \<and> (stamp_cell s = Ts t \<or> stamp_cell s = TsUtc t)"
  by (cases s) (auto split: if_splits)

lemma datetime_cell_stamp:
  "datetime_cell p c \<noteq> Null \<Longrightarrow> \<exists>s. p c = Some s \<and> datetime_cell p c = stamp_cell s"
  by (cases c) (auto split: option.splits)

lemma cleaned_numeric:
  assumes "c \<in> set (present_numeric f)"
  shows "cleaned_row pd_parse pd_num f tc r c =
     numeric_cell pd_num ((r(tc := datetime_cell (pd_parse (time_column f tc)) (r tc))) c)"
  unfolding cleaned_row_def using distinct_present_numeric assms by (rule coerce_row_in)

lemma cleaned_other:
  assumes "c \<notin> set numeric_fields"
  shows "cleaned_row pd_parse pd_num f tc r c =
     (r(tc := datetime_cell (pd_parse (time_column f tc)) (r tc))) c"
  unfolding cleaned_row_def using assms by (intro coerce_row_other) (simp add: set_present_numeric)

lemma kept_row_facts:
  assumes k: "kept pd_parse pd_num f tc r"
  shows "cleaned_row pd_parse pd_num f tc r tc \<noteq> Null"
    and "c \<in> set numeric_fields \<Longrightarrow> c \<in> set (columns f) \<Longrightarrow>
           (\<exists>q. cleaned_row pd_parse pd_num f tc r c = Num q)
           \<or> (\<exists>b. cleaned_row pd_parse pd_num f tc r c = Inf b)"
    and "\<exists>s. r tc \<noteq> Null \<and> pd_parse (time_column f tc) (r tc) = Some s
           \<and> stamp_cell s \<noteq> Null
           \<and> (tc \<notin> set numeric_fields \<longrightarrow>
                cleaned_row pd_parse pd_num f tc r tc = stamp_cell s)"
    and "c \<in> set numeric_fields \<Longrightarrow> c \<in> set (columns f) \<Longrightarrow>
           cleaned_row pd_parse pd_num f tc r c \<noteq> Null"
proof -
  let ?g = "datetime_cell (pd_parse (time_column f tc))"
  have nn: "r tc \<noteq> Null" "?g (r tc) \<noteq> Null"
    and num: "\<And>c. c \<in> set (present_numeric f) \<Longrightarrow> cleaned_row pd_parse pd_num f tc r c \<noteq> Null"
    using k by (auto simp: kept_def)
  obtain s where s: "pd_parse (time_column f tc) (r tc) = Some s" "?g (r tc) = stamp_cell s"
    using datetime_cell_stamp [OF nn(2)] by blast
  show "cleaned_row pd_parse pd_num f tc r tc \<noteq> Null"
  proof (cases "tc \<in> set (present_numeric f)")
    case True
    then show ?thesis by (rule num)
  next
    case False
    then have "cleaned_row pd_parse pd_num f tc r tc = ?g (r tc)"
      by (simp add: cleaned_row_def coerce_row_other)
    then show ?thesis using nn by simp
  qed
  show "(\<exists>q. cleaned_row pd_parse pd_num f tc r c = Num q)
      \<or> (\<exists>b. cleaned_row pd_parse pd_num f tc r c = Inf b)"
    if "c \<in> set numeric_fields" "c \<in> set (columns f)"
  proof -
    have c: "c \<in> set (present_numeric f)" using that by (simp add: set_present_numeric)
    show ?thesis
      using num [OF c] numeric_cell_number [of pd_num] by (simp only: cleaned_numeric [OF c])
  qed
  show "\<exists>s. r tc \<noteq> Null \<and> pd_parse (time_column f tc) (r tc) = Some s
           \<and> stamp_cell s \<noteq> Null
           \<and> (tc \<notin> set numeric_fields \<longrightarrow>
                cleaned_row pd_parse pd_num f tc r tc = stamp_cell s)"
    using nn s by (auto simp: cleaned_other)
  show "cleaned_row pd_parse pd_num f tc r c \<noteq> Null"
    if "c \<in> set numeric_fields" "c \<in> set (columns f)"
    using that num by (simp add: set_present_numeric)
qed

lemma kept_time_cell:
  assumes k: "kept pd_parse pd_num f tc r" and n: "tc \<notin> set numeric_fields"
  shows "\<exists>t. representable t
      \<and> (cleaned_row pd_parse pd_num f tc r tc = Ts t
          \<or> cleaned_row pd_parse pd_num f tc r tc = TsUtc t)"
proof -
  obtain s where "stamp_cell s \<noteq> Null" "cleaned_row pd_parse pd_num f tc r tc = stamp_cell s"
    using kept_row_facts(3) [OF k] n by blast
  then show ?thesis using stamp_cell_cases [of s] by simp
qed

lemma failed_coercion_not_kept:
  assumes "c \<in> set numeric_fields" "c \<in> set (columns f)" "c \<noteq> tc"
    and "numeric_cell pd_num (r c) = Null"
  shows "\<not> kept pd_parse pd_num f tc r"
proof -
  have c: "c \<in> set (present_numeric f)" using assms by (simp add: set_present_numeric)
  have "cleaned_row pd_parse pd_num f tc r c = Null"
    using assms by (simp add: cleaned_numeric [OF c])
  then show ?thesis using c by (auto simp: kept_def)
qed

lemma cleaned_row_untouched:
  "c \<noteq> tc \<Longrightarrow> c \<notin> set numeric_fields \<Longrightarrow> cleaned_row pd_parse pd_num f tc r c = r c"
  by (simp add: cleaned_other)

lemma kept_depends:
  assumes "r tc = r' tc" and "\<forall>c\<in>set numeric_fields. r c = r' c"
  shows "kept pd_parse pd_num f tc r = kept pd_parse pd_num f tc r'"
proof -
  have "cleaned_row pd_parse pd_num f tc r c = cleaned_row pd_parse pd_num f tc r' c"
    if "c \<in> set (present_numeric f)" for c
    using that assms by (simp add: cleaned_numeric set_present_numeric)
  then show ?thesis using assms(1) by (simp add: kept_def)
qed

text \<open>
  C3, as the code has it. The claim that every numeric field of a cleaned record holds a
  valid number fails for the infinities: pandas converts the text \<^verbatim>\<open>inf\<close> to the
  float infinity, which is not a missing value, so the record is kept with an infinite
  ridership.
\<close>

theorem infinite_ridership_survives:
  "result_table (validate_and_clean sample_parse sample_num [infinite_public] 0 ''timestamp'') =
     Inr ([''route_id'', ''city'', ''bus_stop'', ''ridership'', ''timestamp''],
          [[Str ''R1'', Str ''Pune'', Str ''S1'', Inf True, Ts 1735719000000000000]])"
  by code_simp

text \<open>
  C3, amended. For a DataFrame that has the time column, \<^verbatim>\<open>validate_and_clean\<close>
  returns without an error, whatever the rows hold. Its output is the kept rows,
  cleaned. Every output row has a time cell that is not missing, and that is the
  timestamp, one that 64 bits of nanoseconds hold, which its own time cell parsed to
  (when the time column is not itself one of the numeric fields); each of
  \<^verbatim>\<open>ridership\<close>, \<^verbatim>\<open>avg_speed\<close> and \<^verbatim>\<open>congestion_index\<close> that the DataFrame has
  holds a float that is not missing: a finite number or an infinity. A row for which
  the conversion of one of these fields gives a missing value is not kept: it is
  dropped whole, not passed on with a missing field.
\<close>

theorem cleaned_records_valid:
  assumes "df < length h" and "time_col \<in> set (columns (h ! df))"
  shows "\<exists>h' df'. validate_and_clean pd_parse pd_num h df time_col = Inr (h', df')
      \<and> columns (h' ! df') = columns (h ! df)
      \<and> rows (h' ! df') =
          map (cleaned_row pd_parse pd_num (h ! df) time_col)
            (filter (kept pd_parse pd_num (h ! df) time_col) (rows (h ! df)))
      \<and> (\<forall>r\<in>set (rows (h' ! df')).
            r time_col \<noteq> Null
            \<and> (time_col \<notin> set numeric_fields \<longrightarrow>
                 (\<exists>t. representable t \<and> (r time_col = Ts t \<or> r time_col = TsUtc t)))
            \<and> (\<forall>c\<in>set numeric_fields. c \<in> set (columns (h' ! df')) \<longrightarrow>
                 (\<exists>q. r c = Num q) \<or> (\<exists>b. r c = Inf b)))
      \<and> (\<forall>r\<in>set (rows (h ! df)). kept pd_parse pd_num (h ! df) time_col r \<longrightarrow>
            (\<exists>s. r time_col \<noteq> Null
               \<and> pd_parse (time_column (h ! df) time_col) (r time_col) = Some s
               \<and> stamp_cell s \<noteq> Null
               \<and> (time_col \<notin> set numeric_fields \<longrightarrow>
                    cleaned_row pd_parse pd_num (h ! df) time_col r time_col = stamp_cell s)))
      \<and> (\<forall>r\<in>set (rows (h ! df)). \<forall>c\<in>set numeric_fields.
            c \<in> set (columns (h ! df)) \<and> c \<noteq> time_col \<and> numeric_cell pd_num (r c) = Null \<longrightarrow>
            \<not> kept pd_parse pd_num (h ! df) time_col r)"
proof -
  let ?f = "h ! df"
  obtain extra df' where run: "validate_and_clean pd_parse pd_num h df time_col = Inr (h @ extra, df')"
    and fr: "(h @ extra) ! df' = clean_frame pd_parse pd_num ?f time_col"
    using validate_and_clean_result [OF assms] by blast
  have cols: "columns ((h @ extra) ! df') = columns ?f"
    and rws: "rows ((h @ extra) ! df') =
      map (cleaned_row pd_parse pd_num ?f time_col) (filter (kept pd_parse pd_num ?f time_col) (rows ?f))"
    by (simp_all add: fr clean_frame_def)
  have one: "cleaned_row pd_parse pd_num ?f time_col r time_col \<noteq> Null
      \<and> (time_col \<notin> set numeric_fields \<longrightarrow>
           (\<exists>t. representable t
              \<and> (cleaned_row pd_parse pd_num ?f time_col r time_col = Ts t
                  \<or> cleaned_row pd_parse pd_num ?f time_col r time_col = TsUtc t)))
      \<and> (\<forall>c\<in>set numeric_fields. c \<in> set (columns ?f) \<longrightarrow>
           (\<exists>q. cleaned_row pd_parse pd_num ?f time_col r c = Num q)
           \<or> (\<exists>b. cleaned_row pd_parse pd_num ?f time_col r c = Inf b))"
    if k: "kept pd_parse pd_num ?f time_col r" for r
    using kept_row_facts(1,2) [OF k] kept_time_cell [OF k] by blast
  have out: "\<forall>r\<in>set (rows ((h @ extra) ! df')).
      r time_col \<noteq> Null
      \<and> (time_col \<notin> set numeric_fields \<longrightarrow>
           (\<exists>t. representable t \<and> (r time_col = Ts t \<or> r time_col = TsUtc t)))
      \<and> (\<forall>c\<in>set numeric_fields. c \<in> set (columns ((h @ extra) ! df')) \<longrightarrow>
           (\<exists>q. r c = Num q) \<or> (\<exists>b. r c = Inf b))"
    unfolding rws cols using one by auto
  have src: "\<forall>r\<in>set (rows ?f). kept pd_parse pd_num ?f time_col r \<longrightarrow>
      (\<exists>s. r time_col \<noteq> Null \<and> pd_parse (time_column ?f time_col) (r time_col) = Some s
         \<and> stamp_cell s \<noteq> Null
         \<and> (time_col \<notin> set numeric_fields \<longrightarrow>
              cleaned_row pd_parse pd_num ?f time_col r time_col = stamp_cell s))"
    using kept_row_facts(3) [of pd_parse pd_num ?f time_col] by blast
  have drop: "\<forall>r\<in>set (rows ?f). \<forall>c\<in>set numeric_fields.
      c \<in> set (columns ?f) \<and> c \<noteq> time_col \<and> numeric_cell pd_num (r c) = Null \<longrightarrow>
      \<not> kept pd_parse pd_num ?f time_col r"
    using failed_coercion_not_kept [of _ ?f time_col pd_num _ pd_parse] by blast
  show ?thesis
    using run cols rws out src drop by blast
qed

theorem cleaned_records_valid_witness:
  "0 < length [sample_public] \<and> ''timestamp'' \<in> set (columns ([sample_public] ! 0))
   \<and> result_table (validate_and_clean sample_parse sample_num [sample_public] 0 ''timestamp'') =
       Inr ([''route_id'', ''city'', ''bus_stop'', ''ridership'', ''timestamp''],
            [[Str ''R1'', Str ''Pune'', Str ''S1'', Num 120, Ts 1735719000000000000],
             [Str ''R4'', Null, Str ''S4'', Num 45, Ts 1735722300000000000]])
   \<and> (\<exists>h' df'. validate_and_clean sample_parse sample_num [sample_public] 0 ''timestamp'' =
          Inr (h', df')
        \<and> (\<forall>r\<in>set (rows (h' ! df')).
              (\<exists>t. representable t \<and> (r ''timestamp'' = Ts t \<or> r ''timestamp'' = TsUtc t))
              \<and> ((\<exists>q. r ''ridership'' = Num q) \<or> (\<exists>b. r ''ridership'' = Inf b))))"
proof -
  have a: "0 < length [sample_public]" by simp
  have b: "''timestamp'' \<in> set (columns ([sample_public] ! 0))"
    by (simp add: sample_public_def)
  have e: "result_table (validate_and_clean sample_parse sample_num [sample_public] 0 ''timestamp'') =
       Inr ([''route_id'', ''city'', ''bus_stop'', ''ridership'', ''timestamp''],
            [[Str ''R1'', Str ''Pune'', Str ''S1'', Num 120, Ts 1735719000000000000],
             [Str ''R4'', Null, Str ''S4'', Num 45, Ts 1735722300000000000]])"
    by code_simp
  have n: "''timestamp'' \<notin> set numeric_fields" "''ridership'' \<in> set numeric_fields"
    by (simp_all add: numeric_fields_def)
  have c: "''ridership'' \<in> set (columns ([sample_public] ! 0))"
    by (simp add: sample_public_def)
  from cleaned_records_valid [OF a b, of sample_parse sample_num]
  obtain h' df' where run: "validate_and_clean sample_parse sample_num [sample_public] 0 ''timestamp'' =
          Inr (h', df')"
    and cols: "columns (h' ! df') = columns ([sample_public] ! 0)"
    and out: "\<forall>r\<in>set (rows (h' ! df')).
            r ''timestamp'' \<noteq> Null
            \<and> (''timestamp'' \<notin> set numeric_fields \<longrightarrow>
                 (\<exists>t. representable t \<and> (r ''timestamp'' = Ts t \<or> r ''timestamp'' = TsUtc t)))
            \<and> (\<forall>c\<in>set numeric_fields. c \<in> set (columns (h' ! df')) \<longrightarrow>
                 (\<exists>q. r c = Num q) \<or> (\<exists>b. r c = Inf b))"
    by blast
  have "\<forall>r\<in>set (rows (h' ! df')).
      (\<exists>t. representable t \<and> (r ''timestamp'' = Ts t \<or> r ''timestamp'' = TsUtc t))
      \<and> ((\<exists>q. r ''ridership'' = Num q) \<or> (\<exists>b. r ''ridership'' = Inf b))"
  proof
    fix r assume r: "r \<in> set (rows (h' ! df'))"
    have c': "''ridership'' \<in> set (columns (h' ! df'))" using c cols by simp
    show "(\<exists>t. representable t \<and> (r ''timestamp'' = Ts t \<or> r ''timestamp'' = TsUtc t))
      \<and> ((\<exists>q. r ''ridership'' = Num q) \<or> (\<exists>b. r ''ridership'' = Inf b))"
      using out [rule_format, OF r] n c' by blast
  qed
  then show ?thesis using a b e run by blast
qed

text \<open>
  C4, as the code has it. The claim that no cleaned record has a missing value in any
  required field fails: a public record without \<^verbatim>\<open>route_id\<close> and \<^verbatim>\<open>city\<close> comes
  through the cleaner as it is.
\<close>

theorem null_route_and_city_survive:
  "result_table (validate_and_clean sample_parse sample_num [null_city_public] 0 ''timestamp'') =
     Inr ([''route_id'', ''city'', ''bus_stop'', ''ridership'', ''timestamp''],
          [[Null, Null, Str ''S4'', Num 45, Ts 1735722300000000000]])"
  by code_simp

text \<open>
  C4, amended. After cleaning no record has a missing value in the time column or in
  any of \<^verbatim>\<open>ridership\<close>, \<^verbatim>\<open>avg_speed\<close> and \<^verbatim>\<open>congestion_index\<close> that the data has.
  Every other column, \<^verbatim>\<open>route_id\<close>, \<^verbatim>\<open>city\<close> and \<^verbatim>\<open>bus_stop\<close> among them, is
  carried over unchanged, missing values included, and has no say in whether a record
  is kept.
\<close>

theorem cleaned_fields_not_null:
  assumes "df < length h" and "time_col \<in> set (columns (h ! df))"
  shows "\<exists>h' df'. validate_and_clean pd_parse pd_num h df time_col = Inr (h', df')
      \<and> columns (h' ! df') = columns (h ! df)
      \<and> (\<forall>r\<in>set (rows (h' ! df')).
            r time_col \<noteq> Null
            \<and> (\<forall>c\<in>set numeric_fields. c \<in> set (columns (h' ! df')) \<longrightarrow> r c \<noteq> Null))
      \<and> rows (h' ! df') =
          map (cleaned_row pd_parse pd_num (h ! df) time_col)
            (filter (kept pd_parse pd_num (h ! df) time_col) (rows (h ! df)))
      \<and> (\<forall>r c. c \<noteq> time_col \<and> c \<notin> set numeric_fields \<longrightarrow>
            cleaned_row pd_parse pd_num (h ! df) time_col r c = r c)
      \<and> (\<forall>r r'. r time_col = r' time_col \<and> (\<forall>c\<in>set numeric_fields. r c = r' c) \<longrightarrow>
            kept pd_parse pd_num (h ! df) time_col r = kept pd_parse pd_num (h ! df) time_col r')"
proof -
  let ?f = "h ! df"
  obtain extra df' where run: "validate_and_clean pd_parse pd_num h df time_col = Inr (h @ extra, df')"
    and fr: "(h @ extra) ! df' = clean_frame pd_parse pd_num ?f time_col"
    using validate_and_clean_result [OF assms] by blast
  have cols: "columns ((h @ extra) ! df') = columns ?f"
    and rws: "rows ((h @ extra) ! df') =
      map (cleaned_row pd_parse pd_num ?f time_col) (filter (kept pd_parse pd_num ?f time_col) (rows ?f))"
    by (simp_all add: fr clean_frame_def)
  have out: "\<forall>r\<in>set (rows ((h @ extra) ! df')).
      r time_col \<noteq> Null
      \<and> (\<forall>c\<in>set numeric_fields. c \<in> set (columns ((h @ extra) ! df')) \<longrightarrow> r c \<noteq> Null)"
    unfolding rws cols using kept_row_facts(1,4) [of pd_parse pd_num ?f time_col] by fastforce
  have pass: "\<forall>r c. c \<noteq> time_col \<and> c \<notin> set numeric_fields \<longrightarrow>
      cleaned_row pd_parse pd_num ?f time_col r c = r c"
    by (simp add: cleaned_row_untouched)
  have dep: "\<forall>r r'. r time_col = r' time_col \<and> (\<forall>c\<in>set numeric_fields. r c = r' c) \<longrightarrow>
      kept pd_parse pd_num ?f time_col r = kept pd_parse pd_num ?f time_col r'"
    using kept_depends [of _ time_col _ pd_parse pd_num ?f] by blast
  show ?thesis
    using run cols out rws pass dep by blast
qed

theorem cleaned_fields_not_null_witness:
  "0 < length [sample_public] \<and> ''timestamp'' \<in> set (columns ([sample_public] ! 0))
   \<and> result_table (validate_and_clean sample_parse sample_num [sample_public] 0 ''timestamp'') =
       Inr ([''route_id'', ''city'', ''bus_stop'', ''ridership'', ''timestamp''],
            [[Str ''R1'', Str ''Pune'', Str ''S1'', Num 120, Ts 1735719000000000000],
             [Str ''R4'', Null, Str ''S4'', Num 45, Ts 1735722300000000000]])
   \<and> (\<exists>h' df'. validate_and_clean sample_parse sample_num [sample_public] 0 ''timestamp'' =
          Inr (h', df')
      \<and> columns (h' ! df') = columns ([sample_public] ! 0)
      \<and> (\<forall>r\<in>set (rows (h' ! df')).
            r ''timestamp'' \<noteq> Null
            \<and> (\<forall>c\<in>set numeric_fields. c \<in> set (columns (h' ! df')) \<longrightarrow> r c \<noteq> Null))
      \<and> rows (h' ! df') =
          map (cleaned_row sample_parse sample_num ([sample_public] ! 0) ''timestamp'')
            (filter (kept sample_parse sample_num ([sample_public] ! 0) ''timestamp'')
              (rows ([sample_public] ! 0)))
      \<and> (\<forall>r c. c \<noteq> ''timestamp'' \<and> c \<notin> set numeric_fields \<longrightarrow>
            cleaned_row sample_parse sample_num ([sample_public] ! 0) ''timestamp'' r c = r c)
      \<and> (\<forall>r r'. r ''timestamp'' = r' ''timestamp'' \<and> (\<forall>c\<in>set numeric_fields. r c = r' c) \<longrightarrow>
            kept sample_parse sample_num ([sample_public] ! 0) ''timestamp'' r =
            kept sample_parse sample_num ([sample_public] ! 0) ''timestamp'' r'))"
proof -
  have a: "0 < length [sample_public]" by simp
  have b: "''timestamp'' \<in> set (columns ([sample_public] ! 0))"
    by (simp add: sample_public_def)
  have e: "result_table (validate_and_clean sample_parse sample_num [sample_public] 0 ''timestamp'') =
       Inr ([''route_id'', ''city'', ''bus_stop'', ''ridership'', ''timestamp''],
            [[Str ''R1'', Str ''Pune'', Str ''S1'', Num 120, Ts 1735719000000000000],
             [Str ''R4'', Null, Str ''S4'', Num 45, Ts 1735722300000000000]])"
    by code_simp
  show ?thesis
    by (intro conjI a b e cleaned_fields_not_null [OF a b])
qed

text \<open>
  C8. \<^verbatim>\<open>validate_and_clean\<close> returns a new DataFrame: the store after the call is the
  store before it with new objects appended, so the caller's input, like every
  DataFrame that existed, is unchanged, and the result is one of the new objects. Its
  rows are the kept rows of the input, cleaned, in the order of the input.
\<close>

theorem clean_keeps_order_and_input:
  assumes "df < length h" and "time_col \<in> set (columns (h ! df))"
  shows "\<exists>extra df'. validate_and_clean pd_parse pd_num h df time_col = Inr (h @ extra, df')
      \<and> length h \<le> df' \<and> df' < length (h @ extra)
      \<and> (\<forall>i<length h. (h @ extra) ! i = h ! i)
      \<and> rows ((h @ extra) ! df') =
          map (cleaned_row pd_parse pd_num (h ! df) time_col)
            (filter (kept pd_parse pd_num (h ! df) time_col) (rows (h ! df)))"
proof -
  obtain extra df' where run: "validate_and_clean pd_parse pd_num h df time_col = Inr (h @ extra, df')"
    and b: "length h \<le> df'" "df' < length (h @ extra)"
    and fr: "(h @ extra) ! df' = clean_frame pd_parse pd_num (h ! df) time_col"
    using validate_and_clean_result [OF assms] by blast
  have "\<forall>i<length h. (h @ extra) ! i = h ! i"
    by (simp add: nth_append)
  moreover have "rows ((h @ extra) ! df') =
      map (cleaned_row pd_parse pd_num (h ! df) time_col)
        (filter (kept pd_parse pd_num (h ! df) time_col) (rows (h ! df)))"
    by (simp add: fr clean_frame_def)
  ultimately show ?thesis using run b by blast
qed

theorem clean_keeps_order_and_input_witness:
  "heap_tables (validate_and_clean sample_parse sample_num [sample_public, null_city_public] 0
      ''timestamp'') =
     Inr ([to_table sample_public, to_table null_city_public,
           ([''route_id'', ''city'', ''bus_stop'', ''ridership'', ''timestamp''],
            [[Str ''R1'', Str ''Pune'', Str ''S1'', Num 120, Ts 1735719000000000000],
             [Str ''R2'', Str ''Pune'', Str ''S2'', Str ''not_a_number'', Ts 1735719600000000000],
             [Str ''R3'', Str ''Pune'', Str ''S3'', Num 80, Null],
             [Str ''R4'', Null, Str ''S4'', Str ''45'', Ts 1735722300000000000]]),
           ([''route_id'', ''city'', ''bus_stop'', ''ridership'', ''timestamp''],
            [[Str ''R1'', Str ''Pune'', Str ''S1'', Num 120, Ts 1735719000000000000],
             [Str ''R2'', Str ''Pune'', Str ''S2'', Null, Ts 1735719600000000000],
             [Str ''R4'', Null, Str ''S4'', Num 45, Ts 1735722300000000000]]),
           ([''route_id'', ''city'', ''bus_stop'', ''ridership'', ''timestamp''],
            [[Str ''R1'', Str ''Pune'', Str ''S1'', Num 120, Ts 1735719000000000000],
             [Str ''R4'', Null, Str ''S4'', Num 45, Ts 1735722300000000000]])], 4)
   \<and> (\<exists>extra df'.
        validate_and_clean sample_parse sample_num [sample_public, null_city_public] 0
          ''timestamp'' = Inr ([sample_public, null_city_public] @ extra, df')
        \<and> 2 \<le> df' \<and> ([sample_public, null_city_public] @ extra) ! 0 = sample_public)"
proof -
  have a: "0 < length [sample_public, null_city_public]" by simp
  have b: "''timestamp'' \<in> set (columns ([sample_public, null_city_public] ! 0))"
    by (simp add: sample_public_def)
  have e: "heap_tables (validate_and_clean sample_parse sample_num [sample_public, null_city_public] 0
      ''timestamp'') =
     Inr ([to_table sample_public, to_table null_city_public,
           ([''route_id'', ''city'', ''bus_stop'', ''ridership'', ''timestamp''],
            [[Str ''R1'', Str ''Pune'', Str ''S1'', Num 120, Ts 1735719000000000000],
             [Str ''R2'', Str ''Pune'', Str ''S2'', Str ''not_a_number'', Ts 1735719600000000000],
             [Str ''R3'', Str ''Pune'', Str ''S3'', Num 80, Null],
             [Str ''R4'', Null, Str ''S4'', Str ''45'', Ts 1735722300000000000]]),
           ([''route_id'', ''city'', ''bus_stop'', ''ridership'', ''timestamp''],
            [[Str ''R1'', Str ''Pune'', Str ''S1'', Num 120, Ts 1735719000000000000],
             [Str ''R2'', Str ''Pune'', Str ''S2'', Null, Ts 1735719600000000000],
             [Str ''R4'', Null, Str ''S4'', Num 45, Ts 1735722300000000000]]),
           ([''route_id'', ''city'', ''bus_stop'', ''ridership'', ''timestamp''],
            [[Str ''R1'', Str ''Pune'', Str ''S1'', Num 120, Ts 1735719000000000000],
             [Str ''R4'', Null, Str ''S4'', Num 45, Ts 1735722300000000000]])], 4)"
    by code_simp
  from clean_keeps_order_and_input [OF a b, of sample_parse sample_num]
  obtain extra df' where
    "validate_and_clean sample_parse sample_num [sample_public, null_city_public] 0
          ''timestamp'' = Inr ([sample_public, null_city_public] @ extra, df')"
    "length [sample_public, null_city_public] \<le> df'"
    "\<forall>i<length [sample_public, null_city_public].
        ([sample_public, null_city_public] @ extra) ! i = [sample_public, null_city_public] ! i"
    by blast
  then have "\<exists>extra df'.
        validate_and_clean sample_parse sample_num [sample_public, null_city_public] 0
          ''timestamp'' = Inr ([sample_public, null_city_public] @ extra, df')
        \<and> 2 \<le> df' \<and> ([sample_public, null_city_public] @ extra) ! 0 = sample_public"
    by (intro exI [of _ extra] exI [of _ df']) simp
  then show ?thesis using e by blast
qed

section \<open>The joiner, step by step\<close>


































section \<open>What the joiner guarantees\<close>









section \<open>What a run guarantees\<close>

lemma public_missing:
  assumes "read_public env src path = Inr df" and "\<not> required_public \<subseteq> set (columns df)"
  shows "load_public_transport_csv env src path =
     Inl (MissingColumns (required_public - set (columns df)))"
  using assms by (auto simp: load_public_transport_csv_def Let_def)

lemma traffic_missing:
  assumes "read_traffic env src path = Inr df" and "\<not> required_traffic \<subseteq> set (columns df)"
  shows "load_traffic_data env src path =
     Inl (MissingColumns (required_traffic - set (columns df)))"
  using assms by (auto simp: load_traffic_data_def Let_def)

lemma run_public_error:
  "load_public_transport_csv env (maybe_git_pull env git_pull src) ''raw/transport.csv'' = Inl e \<Longrightarrow>
   run_pipeline env git_pull pd_parse pd_num src w = (Inl e, w)"
  by (simp add: run_pipeline_def Let_def)

lemma run_traffic_error:
  "load_public_transport_csv env (maybe_git_pull env git_pull src) ''raw/transport.csv'' = Inr pub \<Longrightarrow>
   load_traffic_data env (maybe_git_pull env git_pull src) ''raw/traffic.json'' = Inl e \<Longrightarrow>
   run_pipeline env git_pull pd_parse pd_num src w = (Inl e, w)"
  by (simp add: run_pipeline_def Let_def)

lemma run_reader_error_no_write:
  assumes "(\<exists>e. load_public_transport_csv env (maybe_git_pull env git_pull src) ''raw/transport.csv'' = Inl e)
     \<or> (\<exists>e. load_traffic_data env (maybe_git_pull env git_pull src) ''raw/traffic.json'' = Inl e)"
  shows "snd (run_pipeline env git_pull pd_parse pd_num src w) = w"
    and "\<exists>e. fst (run_pipeline env git_pull pd_parse pd_num src w) = Inl e"
  using assms by (auto simp: run_pipeline_def Let_def split: sum.splits)

lemma refresh_off: "maybe_git_pull no_env g src = src"
  by (simp add: maybe_git_pull_def no_env_def lower_char_def)

text \<open>
  C5. When what a reader reads lacks a required column, the reader fails with an error
  that carries exactly the required columns that are missing; the error is decided by
  the column names alone, whatever the rows hold. A run whose transport source lacks a
  column ends with that error, and so does a run whose transport source loads and whose
  traffic source lacks a column; whenever the traffic source lacks a column the run
  fails. In each case the destinations after the run are the destinations before it:
  nothing was written.
\<close>

theorem missing_columns_fail_fast:
  "(read_public env src path = Inr df \<and> \<not> required_public \<subseteq> set (columns df) \<longrightarrow>
      load_public_transport_csv env src path =
        Inl (MissingColumns (required_public - set (columns df))))
   \<and> (read_traffic env src path = Inr df \<and> \<not> required_traffic \<subseteq> set (columns df) \<longrightarrow>
      load_traffic_data env src path =
        Inl (MissingColumns (required_traffic - set (columns df))))
   \<and> (read_public env (maybe_git_pull env git_pull src) ''raw/transport.csv'' = Inr df
        \<and> \<not> required_public \<subseteq> set (columns df) \<longrightarrow>
      run_pipeline env git_pull pd_parse pd_num src w =
        (Inl (MissingColumns (required_public - set (columns df))), w))
   \<and> (load_public_transport_csv env (maybe_git_pull env git_pull src) ''raw/transport.csv'' = Inr pub
        \<and> read_traffic env (maybe_git_pull env git_pull src) ''raw/traffic.json'' = Inr df
        \<and> \<not> required_traffic \<subseteq> set (columns df) \<longrightarrow>
      run_pipeline env git_pull pd_parse pd_num src w =
        (Inl (MissingColumns (required_traffic - set (columns df))), w))
   \<and> (read_traffic env (maybe_git_pull env git_pull src) ''raw/traffic.json'' = Inr df
        \<and> \<not> required_traffic \<subseteq> set (columns df) \<longrightarrow>
      snd (run_pipeline env git_pull pd_parse pd_num src w) = w
      \<and> (\<exists>e. fst (run_pipeline env git_pull pd_parse pd_num src w) = Inl e))"
proof (intro conjI impI; elim conjE)
  show "load_public_transport_csv env src path =
      Inl (MissingColumns (required_public - set (columns df)))"
    if "read_public env src path = Inr df" "\<not> required_public \<subseteq> set (columns df)"
    using that by (rule public_missing)
  show "load_traffic_data env src path =
      Inl (MissingColumns (required_traffic - set (columns df)))"
    if "read_traffic env src path = Inr df" "\<not> required_traffic \<subseteq> set (columns df)"
    using that by (rule traffic_missing)
  show "run_pipeline env git_pull pd_parse pd_num src w =
      (Inl (MissingColumns (required_public - set (columns df))), w)"
    if "read_public env (maybe_git_pull env git_pull src) ''raw/transport.csv'' = Inr df"
      "\<not> required_public \<subseteq> set (columns df)"
    using public_missing [OF that] by (rule run_public_error)
  show "run_pipeline env git_pull pd_parse pd_num src w =
      (Inl (MissingColumns (required_traffic - set (columns df))), w)"
    if "load_public_transport_csv env (maybe_git_pull env git_pull src) ''raw/transport.csv'' = Inr pub"
      "read_traffic env (maybe_git_pull env git_pull src) ''raw/traffic.json'' = Inr df"
      "\<not> required_traffic \<subseteq> set (columns df)"
    using that(1) traffic_missing [OF that(2,3)] by (rule run_traffic_error)
  show "snd (run_pipeline env git_pull pd_parse pd_num src w) = w"
    "\<exists>e. fst (run_pipeline env git_pull pd_parse pd_num src w) = Inl e"
    if "read_traffic env (maybe_git_pull env git_pull src) ''raw/traffic.json'' = Inr df"
      "\<not> required_traffic \<subseteq> set (columns df)"
    using traffic_missing [OF that] run_reader_error_no_write [of env git_pull src pd_parse pd_num w]
    by blast+
qed

theorem missing_columns_fail_fast_witness:
  "read_public no_env (files no_city_transport declared_traffic) ''raw/transport.csv'' =
     Inr no_city_transport
   \<and> required_public - set (columns no_city_transport) = {''city''}
   \<and> run_pipeline no_env no_refresh sample_parse sample_num
       (files no_city_transport declared_traffic) stale_outputs =
       (Inl (MissingColumns {''city''}), stale_outputs)
   \<and> read_traffic no_env (files declared_transport no_speed_traffic) ''raw/traffic.json'' =
     Inr no_speed_traffic
   \<and> required_traffic - set (columns no_speed_traffic) = {''avg_speed''}
   \<and> run_pipeline no_env no_refresh sample_parse sample_num
       (files declared_transport no_speed_traffic) stale_outputs =
       (Inl (MissingColumns {''avg_speed''}), stale_outputs)"
proof -
  let ?src = "files no_city_transport declared_traffic"
  let ?src2 = "files declared_transport no_speed_traffic"
  have r: "read_public no_env (maybe_git_pull no_env no_refresh ?src) ''raw/transport.csv'' =
      Inr no_city_transport"
    unfolding refresh_off by (simp add: read_public_def no_env_def files_def)
  have m: "required_public - set (columns no_city_transport) = {''city''}"
    by (auto simp: required_public_def no_city_transport_def)
  then have n: "\<not> required_public \<subseteq> set (columns no_city_transport)" by auto
  have one: "run_pipeline no_env no_refresh sample_parse sample_num ?src stale_outputs =
      (Inl (MissingColumns (required_public - set (columns no_city_transport))), stale_outputs)"
    using missing_columns_fail_fast [where env = no_env and git_pull = no_refresh
        and src = ?src and df = no_city_transport and pd_parse = sample_parse
        and pd_num = sample_num and w = stale_outputs] r n
    by blast
  have r2: "read_traffic no_env (maybe_git_pull no_env no_refresh ?src2) ''raw/traffic.json'' =
      Inr no_speed_traffic"
    unfolding refresh_off by (simp add: read_traffic_def no_env_def files_def)
  have m2: "required_traffic - set (columns no_speed_traffic) = {''avg_speed''}"
    by (auto simp: required_traffic_def no_speed_traffic_def)
  then have n2: "\<not> required_traffic \<subseteq> set (columns no_speed_traffic)" by auto
  have p2: "load_public_transport_csv no_env (maybe_git_pull no_env no_refresh ?src2)
      ''raw/transport.csv'' = Inr (frame_rename declared_transport ''timing'' ''timestamp'')"
    unfolding refresh_off
    by (simp add: load_public_transport_csv_def read_public_def no_env_def files_def
        required_public_def declared_transport_def)
  have two: "run_pipeline no_env no_refresh sample_parse sample_num ?src2 stale_outputs =
      (Inl (MissingColumns (required_traffic - set (columns no_speed_traffic))), stale_outputs)"
    using missing_columns_fail_fast [where env = no_env and git_pull = no_refresh
        and src = ?src2 and df = no_speed_traffic and pd_parse = sample_parse
        and pd_num = sample_num and w = stale_outputs
        and pub = "frame_rename declared_transport ''timing'' ''timestamp''"] r2 n2 p2
    by blast
  show ?thesis
    using r m one r2 m2 two by (simp add: refresh_off)
qed







text \<open>
  What pandas parses depends on more than the raw inputs: it reads the text \<^verbatim>\<open>now\<close>
  off the clock. Raw sources whose time values say \<^verbatim>\<open>now\<close> give two runs at different
  times different unified tables.
\<close>

lemma clock_words_change_output:
  "processed_csv (snd (run_pipeline no_env no_refresh (clock_parse 1735719000000000000) sample_num
       (files now_transport now_traffic) no_outputs)) =
       Some ([''route_id'', ''city'', ''bus_stop'', ''ridership'', ''timestamp_public'',
           ''event_hour'', ''avg_speed'', ''congestion_index'', ''timestamp_traffic''],
          [[Str ''R1'', Str ''Pune'', Str ''S1'', Num 120, Ts 1735719000000000000,
            Ts 1735718400000000000, Num (37 / 2), Num (7 / 10), Ts 1735719000000000000]])
   \<and> processed_csv (snd (run_pipeline no_env no_refresh (clock_parse 1735722600000000000) sample_num
       (files now_transport now_traffic) no_outputs)) =
       Some ([''route_id'', ''city'', ''bus_stop'', ''ridership'', ''timestamp_public'',
           ''event_hour'', ''avg_speed'', ''congestion_index'', ''timestamp_traffic''],
          [[Str ''R1'', Str ''Pune'', Str ''S1'', Num 120, Ts 1735722600000000000,
            Ts 1735722000000000000, Num (37 / 2), Num (7 / 10), Ts 1735722600000000000]])"
  by code_simp



text \<open>
  C2, at raw sources that have exactly the declared columns. Only \<^verbatim>\<open>timestamp\<close> is a
  column of both sides, so the merge suffixes nothing else: the unified table has a
  column \<^verbatim>\<open>city\<close> and none called \<^verbatim>\<open>city_public\<close>. The run writes the unified table
  and then fails in \<^verbatim>\<open>create_summary_report\<close> with \<^verbatim>\<open>KeyError\<close> for
  \<^verbatim>\<open>city_public\<close>; no report is written.
\<close>

theorem declared_columns_break_report:
  "fst (run_pipeline no_env no_refresh sample_parse sample_num
       (files declared_transport declared_traffic) no_outputs) = Inl (KeyError ''city_public'')
   \<and> processed_csv (snd (run_pipeline no_env no_refresh sample_parse sample_num
       (files declared_transport declared_traffic) no_outputs)) =
       Some ([''route_id'', ''city'', ''bus_stop'', ''ridership'', ''timestamp_public'',
           ''event_hour'', ''avg_speed'', ''congestion_index'', ''timestamp_traffic''],
          [[Str ''R1'', Str ''Pune'', Str ''S1'', Num 120, Ts 1735719000000000000,
            Ts 1735718400000000000, Num (37 / 2), Num (7 / 10), Ts 1735721100000000000]])
   \<and> summary_csv (snd (run_pipeline no_env no_refresh sample_parse sample_num
       (files declared_transport declared_traffic) no_outputs)) = None"
  by code_simp

section \<open>What the notification guarantees\<close>

text \<open>
  C9, as the code has it. The claim that the notification does nothing when the sender
  address is absent from the configuration fails: the sender then defaults to the SMTP
  user, and the mail is sent.
\<close>

theorem absent_sender_still_sends:
  "smtp_env ''ALERT_EMAIL_FROM'' = None
   \<and> send_failure_email smtp_env (plain_mailer delivering) ''ETL Pipeline Failure''
       ''An error occurred during ETL.'' no_mail =
      (Inr (),
       \<lparr>outbox = [\<lparr>subject = ''ETL Pipeline Failure'', sender = ''etl@example.org'',
                    recipient = ''ops@example.org'', content = ''An error occurred during ETL.''\<rparr>],
        log = [Info ''Failure email sent'']\<rparr>)"
  by code_simp

text \<open>
  The port is converted by \<^verbatim>\<open>int\<close> first of all, outside the \<^verbatim>\<open>try\<close>: a port
  setting that is not an integer makes \<^verbatim>\<open>send_failure_email\<close> raise, whatever the
  other settings are, here with every required setting absent. The message too is built
  outside the \<^verbatim>\<open>try\<close>: with all settings there and a sender address of two lines,
  \<^verbatim>\<open>send_failure_email\<close> raises what \<^verbatim>\<open>EmailMessage\<close> raises.
\<close>

lemma bad_port_raises:
  "send_failure_email bad_port_env (plain_mailer delivering) ''ETL Pipeline Failure''
       ''An error occurred during ETL.'' no_mail = (Inl (IntValueError ''abc''), no_mail)"
  by code_simp

lemma bad_sender_raises:
  "send_failure_email bad_sender_env (plain_mailer delivering) ''ETL Pipeline Failure''
       ''An error occurred during ETL.'' no_mail =
     (Inl (LibraryError
        ''Header values may not contain linefeed or carriage return characters''), no_mail)"
  by code_simp

text \<open>
  C9, amended. \<^verbatim>\<open>send_failure_email\<close> first converts the port setting (587 when
  absent) and raises when that is not an integer. With a port that converts: when the
  SMTP host, the SMTP user, the SMTP password or the recipient address is absent or
  empty, or the sender address is set to the empty text, it sends nothing, logs that no
  mail was sent and raises nothing; an absent sender address does not stop the mail,
  the sender is then the SMTP user. Otherwise it builds the message and the TLS context,
  and raises what either of them raises. With both built, it never raises: when the SMTP
  session delivers, the message is sent and that is logged; when the SMTP session fails,
  nothing is sent and the failure is logged as a warning.
\<close>

theorem notification_never_raises:
  "(to_int lib (getenv_or env ''SMTP_PORT'' ''587'') = None \<longrightarrow>
      send_failure_email env lib subj body st =
        (Inl (IntValueError (getenv_or env ''SMTP_PORT'' ''587'')), st))
   \<and> (\<forall>port. to_int lib (getenv_or env ''SMTP_PORT'' ''587'') = Some port \<longrightarrow>
        (\<not> truthy (env ''SMTP_HOST'') \<or> \<not> truthy (env ''SMTP_USER'') \<or> \<not> truthy (env ''SMTP_PASS'')
            \<or> \<not> truthy (env ''ALERT_EMAIL_TO'') \<or> env ''ALERT_EMAIL_FROM'' = Some [] \<longrightarrow>
          send_failure_email env lib subj body st =
            (Inr (), st\<lparr>log := log st @
               [Info ''Email not sent; SMTP or recipient env vars missing'']\<rparr>))
      \<and> (truthy (env ''SMTP_HOST'') \<and> truthy (env ''SMTP_USER'') \<and> truthy (env ''SMTP_PASS'')
            \<and> truthy (env ''ALERT_EMAIL_TO'') \<and> env ''ALERT_EMAIL_FROM'' \<noteq> Some [] \<longrightarrow>
          (\<forall>e. make_message lib subj (getenv_or env ''ALERT_EMAIL_FROM'' (or_empty (env ''SMTP_USER'')))
                  (or_empty (env ''ALERT_EMAIL_TO'')) body = Inl e \<longrightarrow>
             send_failure_email env lib subj body st = (Inl e, st))
        \<and> (\<forall>msg. make_message lib subj
                  (getenv_or env ''ALERT_EMAIL_FROM'' (or_empty (env ''SMTP_USER'')))
                  (or_empty (env ''ALERT_EMAIL_TO'')) body = Inr msg \<longrightarrow>
             (\<forall>e. tls_context lib = Some e \<longrightarrow>
                send_failure_email env lib subj body st = (Inl e, st))
           \<and> (tls_context lib = None \<longrightarrow>
                (smtp_session lib (or_empty (env ''SMTP_HOST'')) port (or_empty (env ''SMTP_USER''))
                     (or_empty (env ''SMTP_PASS'')) msg = None \<longrightarrow>
                   send_failure_email env lib subj body st =
                     (Inr (), st\<lparr>outbox := outbox st @ [msg],
                                 log := log st @ [Info ''Failure email sent'']\<rparr>))
              \<and> (\<forall>e. smtp_session lib (or_empty (env ''SMTP_HOST'')) port
                       (or_empty (env ''SMTP_USER'')) (or_empty (env ''SMTP_PASS'')) msg = Some e \<longrightarrow>
                   send_failure_email env lib subj body st =
                     (Inr (), st\<lparr>log := log st @
                        [Warning (''Failed to send email: '' @ e)]\<rparr>))))))"
  by (auto simp: send_failure_email_def Let_def truthy_def getenv_or_def or_empty_def
      split: option.splits)

theorem notification_never_raises_witness:
  "to_int (plain_mailer delivering) (getenv_or no_host_env ''SMTP_PORT'' ''587'') = Some 587
   \<and> send_failure_email no_host_env (plain_mailer delivering) ''ETL Pipeline Failure''
       ''An error occurred'' no_mail =
      (Inr (), \<lparr>outbox = [], log = [Info ''Email not sent; SMTP or recipient env vars missing'']\<rparr>)
   \<and> to_int (plain_mailer refusing) (getenv_or smtp_env ''SMTP_PORT'' ''587'') = Some 587
   \<and> send_failure_email smtp_env (plain_mailer refusing) ''ETL Pipeline Failure''
       ''An error occurred'' no_mail =
      (Inr (), \<lparr>outbox = [], log = [Warning ''Failed to send email: Connection refused'']\<rparr>)"
proof -
  have port: "to_int (plain_mailer delivering) (getenv_or no_host_env ''SMTP_PORT'' ''587'') =
      Some 587"
    by code_simp
  have nh: "\<not> truthy (no_host_env ''SMTP_HOST'')"
    by code_simp
  have one: "send_failure_email no_host_env (plain_mailer delivering) ''ETL Pipeline Failure''
      ''An error occurred'' no_mail =
      (Inr (), \<lparr>outbox = [], log = [Info ''Email not sent; SMTP or recipient env vars missing'']\<rparr>)"
    using notification_never_raises [where lib = "plain_mailer delivering" and env = no_host_env
        and subj = "''ETL Pipeline Failure''" and body = "''An error occurred''" and st = no_mail,
        THEN conjunct2, rule_format, OF port, THEN conjunct1] nh
    by (simp add: no_mail_def)
  have port2: "to_int (plain_mailer refusing) (getenv_or smtp_env ''SMTP_PORT'' ''587'') = Some 587"
    by code_simp
  have all: "truthy (smtp_env ''SMTP_HOST'') \<and> truthy (smtp_env ''SMTP_USER'')
      \<and> truthy (smtp_env ''SMTP_PASS'') \<and> truthy (smtp_env ''ALERT_EMAIL_TO'')
      \<and> smtp_env ''ALERT_EMAIL_FROM'' \<noteq> Some []"
    by (simp add: smtp_env_def truthy_def or_empty_def)
  have msg: "make_message (plain_mailer refusing) ''ETL Pipeline Failure''
      (getenv_or smtp_env ''ALERT_EMAIL_FROM'' (or_empty (smtp_env ''SMTP_USER'')))
      (or_empty (smtp_env ''ALERT_EMAIL_TO'')) ''An error occurred'' =
      Inr \<lparr>subject = ''ETL Pipeline Failure'', sender = ''etl@example.org'',
           recipient = ''ops@example.org'', content = ''An error occurred''\<rparr>"
    by code_simp
  have tls: "tls_context (plain_mailer refusing) = None"
    by (simp add: plain_mailer_def)
  have ses: "smtp_session (plain_mailer refusing) (or_empty (smtp_env ''SMTP_HOST'')) 587
      (or_empty (smtp_env ''SMTP_USER'')) (or_empty (smtp_env ''SMTP_PASS''))
      \<lparr>subject = ''ETL Pipeline Failure'', sender = ''etl@example.org'',
        recipient = ''ops@example.org'', content = ''An error occurred''\<rparr> =
      Some ''Connection refused''"
    by (simp add: plain_mailer_def refusing_def)
  have two: "send_failure_email smtp_env (plain_mailer refusing) ''ETL Pipeline Failure''
      ''An error occurred'' no_mail =
      (Inr (), \<lparr>outbox = [], log = [Warning ''Failed to send email: Connection refused'']\<rparr>)"
    using notification_never_raises [where lib = "plain_mailer refusing" and env = smtp_env
        and subj = "''ETL Pipeline Failure''" and body = "''An error occurred''" and st = no_mail,
        THEN conjunct2, rule_format, OF port2, THEN conjunct2, rule_format, OF all,
        THEN conjunct2, rule_format, OF msg, THEN conjunct2, rule_format, OF tls,
        THEN conjunct2, rule_format, OF ses]
    by (simp add: no_mail_def)
  show ?thesis
    using port one port2 two by (intro conjI)
qed

end
